theory Spec2Isabelle
  imports Complex_Main "HOL-Library.Char_ord" "HOL-Library.List_Lexorder"
    "HOL-Library.Code_Target_Numeral" "HOL-Library.Sublist"
begin

section \<open>Data model\<close>

text \<open>
  The script works on a pandas DataFrame with the columns \<^verbatim>\<open>Province\<close>, \<^verbatim>\<open>Gender\<close>
  and \<^verbatim>\<open>Claimed\<close>. A DataFrame is a table whose columns all have the same length, so it
  is modelled as the list of its rows, in row order. Exceptions are values of
  \<open>py_error\<close>; a function that can raise returns \<open>py_error + 'a\<close>.
\<close>

datatype py_error = ValueError | KeyError | IndexError | TypeError | MemoryError

record row =
  Province :: string
  Gender :: string
  Claimed :: int

type_synonym dataframe = "row list"

text \<open>
  \<^verbatim>\<open>pd.DataFrame({'Province': ps, 'Gender': gs, 'Claimed': cs})\<close>: pandas raises
  ValueError ("All arrays must be of the same length") when the columns differ in length.
\<close>

fun zip_rows :: "string list \<Rightarrow> string list \<Rightarrow> int list \<Rightarrow> dataframe" where
  "zip_rows (p # ps) (g # gs) (c # cs) =
     \<lparr>Province = p, Gender = g, Claimed = c\<rparr> # zip_rows ps gs cs"
| "zip_rows _ _ _ = []"

definition DataFrame :: "string list \<Rightarrow> string list \<Rightarrow> int list \<Rightarrow> py_error + dataframe" where
  "DataFrame ps gs cs =
     (if length ps = length gs \<and> length gs = length cs then Inr (zip_rows ps gs cs)
      else Inl ValueError)"

section \<open>The pseudo-random source\<close>

text \<open>
  The generator uses numpy's process-wide legacy generator: \<^verbatim>\<open>np.random.seed\<close>,
  \<^verbatim>\<open>np.random.choice\<close> and \<^verbatim>\<open>np.random.rand\<close>. numpy is not part of the repository, so
  the generator is a parameter: a state type \<open>'s\<close> with the three operations the script
  reaches. \<open>seed n\<close> is the state after seeding with \<open>n\<close>; \<open>randint n s\<close> draws one
  index for a population of size \<open>n\<close> (\<^verbatim>\<open>choice\<close> draws its indices with
  \<^verbatim>\<open>randint(0, n)\<close>); \<open>rand s\<close> draws one float of [0, 1). Each draw returns the next
  state. A float is the real number it denotes, so comparing two floats is comparing
  two reals.

  The machine is a parameter as well: \<open>alloc_error n\<close> is the exception numpy raises
  when the running process cannot allocate an array of \<open>n\<close> elements (below numpy's
  own limit on a dimension), and \<open>None\<close> when it can.
\<close>

record 's np_random =
  seed :: "nat \<Rightarrow> 's"
  randint :: "nat \<Rightarrow> 's \<Rightarrow> nat \<times> 's"
  rand :: "'s \<Rightarrow> real \<times> 's"
  alloc_error :: "nat \<Rightarrow> py_error option"

text \<open>What numpy guarantees of \<^verbatim>\<open>randint(0, n)\<close>: the index is below \<open>n\<close>.\<close>

definition randint_in_range :: "'s np_random \<Rightarrow> bool" where
  "randint_in_range R = (\<forall>n s. 0 < n \<longrightarrow> fst (randint R n s) < n)"

fun randint_n :: "'s np_random \<Rightarrow> nat \<Rightarrow> nat \<Rightarrow> 's \<Rightarrow> nat list \<times> 's" where
  "randint_n R pop 0 s = ([], s)"
| "randint_n R pop (Suc k) s =
     (case randint R pop s of (i, s1) \<Rightarrow>
      case randint_n R pop k s1 of (idx, s2) \<Rightarrow> (i # idx, s2))"

text \<open>
  \<^verbatim>\<open>np.random.choice(a, size)\<close> with replacement and no weights: ValueError for a
  negative size ("negative dimensions are not allowed"), for an empty population with
  a non-zero size, and for a size that does not fit numpy's signed 64-bit dimension
  ("Maximum allowed dimension exceeded", from \<open>2\<^sup>6\<^sup>3\<close> on); below that limit the
  exception of the allocation when the array of indices cannot be allocated; otherwise
  \<open>sz\<close> indices are drawn and \<open>a\<close> is indexed with them (IndexError for an index out of
  range). Nothing is drawn when the call raises before the draws.
\<close>

definition choice :: "'s np_random \<Rightarrow> 'a list \<Rightarrow> int \<Rightarrow> 's \<Rightarrow> (py_error + 'a list) \<times> 's" where
  "choice R a sz s =
     (if sz < 0 then (Inl ValueError, s)
      else if a = [] \<and> sz \<noteq> 0 then (Inl ValueError, s)
      else if 2 ^ 63 \<le> sz then (Inl ValueError, s)
      else case alloc_error R (nat sz) of
        Some e \<Rightarrow> (Inl e, s)
      | None \<Rightarrow>
         (case randint_n R (length a) (nat sz) s of (idx, s1) \<Rightarrow>
            if list_all (\<lambda>i. i < length a) idx then (Inr (map (nth a) idx), s1)
            else (Inl IndexError, s1)))"

section \<open>generate_insurance_data\<close>

definition provinces :: "string list" where
  "provinces = [''Province_A'', ''Province_B'', ''Province_C'']"

definition genders :: "string list" where
  "genders = [''Male'', ''Female'']"

text \<open>
  The rates are written as the float literals \<^verbatim>\<open>0.1\<close>, \<^verbatim>\<open>0.9\<close>, \<^verbatim>\<open>0.2\<close> and \<^verbatim>\<open>0.6\<close>. A
  literal denotes the float64 nearest to it, which is not the decimal fraction:
  \<^verbatim>\<open>0.6\<close> is \<open>5404319552844595 / 2\<^sup>5\<^sup>3\<close>, just below 6/10, and \<^verbatim>\<open>0.2\<close> is
  \<open>3602879701896397 / 2\<^sup>5\<^sup>4\<close>, just above 2/10.
\<close>

definition float_0_1 :: real where
  "float_0_1 = 3602879701896397 / 2 ^ 55"

definition float_0_2 :: real where
  "float_0_2 = 3602879701896397 / 2 ^ 54"

definition float_0_6 :: real where
  "float_0_6 = 5404319552844595 / 2 ^ 53"

definition float_0_9 :: real where
  "float_0_9 = 8106479329266893 / 2 ^ 53"

definition claim_rates_province :: "string \<rightharpoonup> real" where
  "claim_rates_province =
     [''Province_A'' \<mapsto> float_0_1, ''Province_B'' \<mapsto> float_0_9, ''Province_C'' \<mapsto> float_0_2]"

definition claim_rates_gender :: "string \<rightharpoonup> real" where
  "claim_rates_gender = [''Male'' \<mapsto> float_0_6, ''Female'' \<mapsto> float_0_2]"

text \<open>
  The list comprehension of line 41,
  \<^verbatim>\<open>[1 if np.random.rand() < claim_rates_gender[gender] else 0 for gender in gender_choices]\<close>:
  one draw per gender, in order; the draw is made before the table is indexed, and a
  gender missing from the table raises KeyError.
\<close>

fun claims_loop :: "'s np_random \<Rightarrow> (string \<rightharpoonup> real) \<Rightarrow> string list \<Rightarrow> 's \<Rightarrow> (py_error + int list) \<times> 's" where
  "claims_loop R rates [] s = (Inr [], s)"
| "claims_loop R rates (gender # rest) s =
     (case rand R s of (u, s1) \<Rightarrow>
      case rates gender of
        None \<Rightarrow> (Inl KeyError, s1)
      | Some rate \<Rightarrow>
         (case claims_loop R rates rest s1 of
            (Inl e, s2) \<Rightarrow> (Inl e, s2)
          | (Inr claims, s2) \<Rightarrow> (Inr ((if u < rate then 1 else 0) # claims), s2)))"

text \<open>
  The body of \<^verbatim>\<open>generate_insurance_data\<close> with its two local tables as arguments.
  \<open>g\<close> is the state of the process-wide generator when the function is called; the
  function returns the dataset (or the exception) and the state it leaves behind.
\<close>

definition generate_with_tables ::
  "'s np_random \<Rightarrow> (string \<rightharpoonup> real) \<Rightarrow> (string \<rightharpoonup> real) \<Rightarrow> int \<Rightarrow> 's \<Rightarrow> (py_error + dataframe) \<times> 's" where
  "generate_with_tables R rates_province rates_gender num_records g =
     (case choice R provinces num_records (seed R 42) of
        (Inl e, s1) \<Rightarrow> (Inl e, s1)
      | (Inr province_choices, s1) \<Rightarrow>
     (case choice R genders num_records s1 of
        (Inl e, s2) \<Rightarrow> (Inl e, s2)
      | (Inr gender_choices, s2) \<Rightarrow>
     (case claims_loop R rates_gender gender_choices s2 of
        (Inl e, s3) \<Rightarrow> (Inl e, s3)
      | (Inr claims, s3) \<Rightarrow> (DataFrame province_choices gender_choices claims, s3))))"

definition generate_insurance_data :: "'s np_random \<Rightarrow> int \<Rightarrow> 's \<Rightarrow> (py_error + dataframe) \<times> 's" where
  "generate_insurance_data R num_records g =
     generate_with_tables R claim_rates_province claim_rates_gender num_records g"

text \<open>
  The floats of line 41, for stating what decides \<^verbatim>\<open>Claimed\<close>: \<open>rand_n R k s\<close> are
  \<open>k\<close> successive draws of \<open>rand\<close> from state \<open>s\<close>, and \<open>claim_draws R N\<close> are the
  draws made after seeding and the two calls of \<^verbatim>\<open>choice\<close>.
\<close>

fun rand_n :: "'s np_random \<Rightarrow> nat \<Rightarrow> 's \<Rightarrow> real list \<times> 's" where
  "rand_n R 0 s = ([], s)"
| "rand_n R (Suc k) s =
     (case rand R s of (u, s1) \<Rightarrow>
      case rand_n R k s1 of (us, s2) \<Rightarrow> (u # us, s2))"

definition claim_draws :: "'s np_random \<Rightarrow> int \<Rightarrow> real list" where
  "claim_draws R N =
     fst (rand_n R (nat N) (snd (choice R genders N (snd (choice R provinces N (seed R 42))))))"

text \<open>
  A small concrete generator (a linear congruential one) on a machine that can
  allocate arrays of up to a million elements, to run the definitions on: numpy's
  Mersenne Twister plays no part in any property below.
\<close>

definition lcg_next :: "nat \<Rightarrow> nat" where
  "lcg_next s = (75 * s + 74) mod 65537"

definition lcg_random :: "nat np_random" where
  "lcg_random =
     \<lparr>seed = (\<lambda>n. n),
      randint = (\<lambda>n s. (s mod n, lcg_next s)),
      rand = (\<lambda>s. (real s / 65537, lcg_next s)),
      alloc_error = (\<lambda>n. if n \<le> 1000000 then None else Some MemoryError)\<rparr>"

section \<open>Floats and p-values\<close>

text \<open>
  The statistics are floats. Finite floats are read as reals; the three special values a
  division by zero can produce are kept apart, since the tests return them instead of
  raising. The p-value of the chi-squared test is the tail of a distribution that
  HOL-Library does not define, so it is kept as the tail function's arguments:
  \<open>Chi2_sf x k\<close> for \<^verbatim>\<open>chi2.sf(x, k)\<close>.

  The t-test computes its statistic from means and variances in float64, with rounding
  at every step, and the rounding is not modelled: \<open>Welch_t a b\<close> stands for the float
  that scipy's computation of Welch's statistic gives on the samples \<open>a\<close> and \<open>b\<close>,
  and \<open>Welch_p a b\<close> for the p-value it derives from it. Only the results that no
  rounding is involved in are given as values: \<open>T_NaN\<close>, \<open>T_PInf\<close> and \<open>T_NInf\<close>.
\<close>

datatype pyfloat = Fin real | PInf | NInf | NaN

datatype pvalue = PValue pyfloat | Chi2_sf real int | Welch_p "int list" "int list"

datatype t_statistic = T_NaN | T_PInf | T_NInf | Welch_t "int list" "int list"

section \<open>preprocessing_script\<close>

text \<open>
  \<^verbatim>\<open>pd.crosstab(rows, cols)\<close> counts the pairs of the two aligned columns: one row per
  distinct value of the first column and one column per distinct value of the second,
  both sorted, and in each cell the number of records with that pair (0 for a pair that
  does not occur).
\<close>

record contingency =
  index :: "string list"
  columns :: "int list"
  cells :: "int list list"

definition crosstab :: "string list \<Rightarrow> int list \<Rightarrow> contingency" where
  "crosstab rs cs =
     (let pairs = zip rs cs;
          idx = sort (remdups (map fst pairs));
          cols = sort (remdups (map snd pairs))
      in \<lparr>index = idx, columns = cols,
          cells = map (\<lambda>r. map (\<lambda>c. int (count_list pairs (r, c))) cols) idx\<rparr>)"

text \<open>The two columns as the list of their pairs, for stating what the table counts.\<close>

definition pairs_of :: "dataframe \<Rightarrow> (string \<times> int) list" where
  "pairs_of data = map (\<lambda>r. (Province r, Claimed r)) data"

text \<open>
  \<^verbatim>\<open>scipy.stats.chi2_contingency(observed)\<close> on a two-dimensional table, as scipy
  documents and implements it: ValueError for a negative entry, for a table of size 0,
  and for a zero among the expected frequencies \<open>row sum * column sum / total\<close>;
  otherwise \<open>dof = size - (rows + columns) + 2 - 1\<close>, the statistic is 0 with p-value 1
  when \<open>dof = 0\<close>, and else the statistic is the sum of
  \<open>(observed - expected)\<^sup>2 / expected\<close>, after Yates' correction when \<open>dof = 1\<close>. A table
  whose entries are all 0 has the expected frequencies 0/0, which are NaN and not zero.
\<close>

definition nrows :: "int list list \<Rightarrow> nat" where
  "nrows obs = length obs"

definition ncols :: "int list list \<Rightarrow> nat" where
  "ncols obs = (case obs of [] \<Rightarrow> 0 | r # _ \<Rightarrow> length r)"

definition row_sums :: "int list list \<Rightarrow> int list" where
  "row_sums obs = map sum_list obs"

definition col_sums :: "int list list \<Rightarrow> int list" where
  "col_sums obs = map (\<lambda>j. sum_list (map (\<lambda>r. r ! j) obs)) [0..<ncols obs]"

definition grand_total :: "int list list \<Rightarrow> int" where
  "grand_total obs = sum_list (row_sums obs)"

definition expected_freq :: "int list list \<Rightarrow> real list list" where
  "expected_freq obs =
     map (\<lambda>r. map (\<lambda>c. real_of_int r * real_of_int c / real_of_int (grand_total obs)) (col_sums obs))
       (row_sums obs)"

definition yates :: "real \<Rightarrow> real \<Rightarrow> real" where
  "yates observed expected =
     (let diff = expected - observed in observed + min (1 / 2) \<bar>diff\<bar> * sgn diff)"

definition chi2_statistic :: "real list list \<Rightarrow> real list list \<Rightarrow> real" where
  "chi2_statistic observed expected =
     sum_list (map (\<lambda>(ob, ex). (ob - ex)\<^sup>2 / ex) (zip (concat observed) (concat expected)))"

definition chi2_contingency ::
  "int list list \<Rightarrow> py_error + (pyfloat \<times> pvalue \<times> int \<times> pyfloat list list)" where
  "chi2_contingency observed =
     (if list_ex (list_ex (\<lambda>x. x < 0)) observed then Inl ValueError
      else if nrows observed * ncols observed = 0 then Inl ValueError
      else
        let dof = int (nrows observed * ncols observed)
                    - int (nrows observed + ncols observed) + 2 - 1
        in
        if grand_total observed = 0 then
          (if dof = 0 then Inr (Fin 0, PValue (Fin 1), dof, map (map (\<lambda>_. NaN)) observed)
           else Inr (NaN, PValue NaN, dof, map (map (\<lambda>_. NaN)) observed))
        else
          let expected = expected_freq observed in
          if list_ex (list_ex (\<lambda>e. e = 0)) expected then Inl ValueError
          else if dof = 0 then Inr (Fin 0, PValue (Fin 1), dof, map (map Fin) expected)
          else
            let obs = (if dof = 1 then map2 (map2 yates) (map (map real_of_int) observed) expected
                       else map (map real_of_int) observed);
                chi2 = chi2_statistic obs expected
            in Inr (Fin chi2, Chi2_sf chi2 dof, dof, map (map Fin) expected))"

text \<open>
  Lines 82 to 87: the contingency table of \<^verbatim>\<open>Province\<close> against \<^verbatim>\<open>Claimed\<close>, the test on
  it, and the statistic, the p-value and the table as the result.
\<close>

definition preprocessing_script :: "dataframe \<Rightarrow> py_error + (pyfloat \<times> pvalue \<times> contingency)" where
  "preprocessing_script data =
     (let contingency_table = crosstab (map Province data) (map Claimed data) in
      case chi2_contingency (cells contingency_table) of
        Inl e \<Rightarrow> Inl e
      | Inr (chi2, p, dof, expected) \<Rightarrow> Inr (chi2, p, contingency_table))"

section \<open>gender_analysis\<close>

text \<open>
  \<^verbatim>\<open>scipy.stats.ttest_ind(a, b, equal_var=False)\<close>, Welch's test on two samples taken
  from a column of Python integers. pandas holds such a column as an int64 or a uint64
  array when all its values fit one of the two, and as an array of Python objects
  otherwise; on an object array scipy raises TypeError. On a numeric array it raises
  nothing:
  \<^item> with an empty sample the statistic and the p-value are NaN;
  \<^item> the sample variance (\<^verbatim>\<open>ddof=1\<close>) of a single value is 0/0, NaN, and so are the
    statistic and the p-value computed from it;
  \<^item> the statistic is \<open>(mean a - mean b) / sqrt (var a / n1 + var b / n2)\<close>, and the
    division is made with the warnings silenced. When every value of a sample equals
    \<open>c\<close> and \<open>\<bar>c\<bar> * n \<le> 2^53\<close>, the sums are exact, the mean is \<open>c\<close> and the variance is
    0; when that holds of both samples the denominator is 0 and the statistic is 0/0,
    NaN, for equal means, and an infinity with p-value 0 for different means;
  \<^item> in every other case the statistic and the p-value are the floats that the
    computation gives.
\<close>

definition fits_int64 :: "int \<Rightarrow> bool" where
  "fits_int64 x = (- (2 ^ 63) \<le> x \<and> x < 2 ^ 63)"

definition fits_uint64 :: "int \<Rightarrow> bool" where
  "fits_uint64 x = (0 \<le> x \<and> x < 2 ^ 64)"

definition numeric_dtype :: "int list \<Rightarrow> bool" where
  "numeric_dtype xs = (list_all fits_int64 xs \<or> list_all fits_uint64 xs)"

definition exact_constant :: "int list \<Rightarrow> bool" where
  "exact_constant xs =
     (list_all (\<lambda>x. x = hd xs) xs \<and> \<bar>hd xs\<bar> * int (length xs) \<le> 2 ^ 53)"

definition ttest_ind :: "int list \<Rightarrow> int list \<Rightarrow> py_error + (t_statistic \<times> pvalue)" where
  "ttest_ind a b =
     (if \<not> numeric_dtype (a @ b) then Inl TypeError
      else if a = [] \<or> b = [] then Inr (T_NaN, PValue NaN)
      else if length a = 1 \<or> length b = 1 then Inr (T_NaN, PValue NaN)
      else if exact_constant a \<and> exact_constant b then
        (if hd a = hd b then Inr (T_NaN, PValue NaN)
         else if hd b < hd a then Inr (T_PInf, PValue (Fin 0))
         else Inr (T_NInf, PValue (Fin 0)))
      else Inr (Welch_t a b, Welch_p a b))"

text \<open>
  Lines 101 and 102 select the \<^verbatim>\<open>Claimed\<close> values of the records whose \<^verbatim>\<open>Gender\<close> equals
  the string \<^verbatim>\<open>'Male'\<close>, and likewise \<^verbatim>\<open>'Female'\<close>; line 105 runs the test on the two.
\<close>

definition male_claims :: "dataframe \<Rightarrow> int list" where
  "male_claims data = map Claimed (filter (\<lambda>r. Gender r = ''Male'') data)"

definition female_claims :: "dataframe \<Rightarrow> int list" where
  "female_claims data = map Claimed (filter (\<lambda>r. Gender r = ''Female'') data)"

definition gender_analysis :: "dataframe \<Rightarrow> py_error + (t_statistic \<times> pvalue)" where
  "gender_analysis data = ttest_ind (male_claims data) (female_claims data)"

section \<open>A sample dataset\<close>

text \<open>
  Six records to run the two tests on. Every record of \<^verbatim>\<open>Province_A\<close> has \<^verbatim>\<open>Claimed\<close> 0,
  and one record has a gender that is neither \<^verbatim>\<open>'Male'\<close> nor \<^verbatim>\<open>'Female'\<close>.
\<close>

definition sample_data :: dataframe where
  "sample_data =
     [\<lparr>Province = ''Province_A'', Gender = ''Male'', Claimed = 0\<rparr>,
      \<lparr>Province = ''Province_A'', Gender = ''Female'', Claimed = 0\<rparr>,
      \<lparr>Province = ''Province_B'', Gender = ''Male'', Claimed = 1\<rparr>,
      \<lparr>Province = ''Province_B'', Gender = ''Female'', Claimed = 0\<rparr>,
      \<lparr>Province = ''Province_C'', Gender = ''male'', Claimed = 1\<rparr>,
      \<lparr>Province = ''Province_C'', Gender = ''Male'', Claimed = 1\<rparr>]"

definition sample_table :: contingency where
  "sample_table =
     \<lparr>index = [''Province_A'', ''Province_B'', ''Province_C''], columns = [0, 1],
      cells = [[2, 0], [1, 1], [0, 2]]\<rparr>"

text \<open>
  Three datasets with degenerate samples: no Female record; two Male and two Female
  records that all have \<^verbatim>\<open>Claimed\<close> 1; and two Male records with \<^verbatim>\<open>Claimed\<close> 1 against
  two Female records with \<^verbatim>\<open>Claimed\<close> 0.
\<close>

definition males_only :: dataframe where
  "males_only =
     [\<lparr>Province = ''Province_A'', Gender = ''Male'', Claimed = 1\<rparr>,
      \<lparr>Province = ''Province_B'', Gender = ''Male'', Claimed = 0\<rparr>]"

definition constant_equal :: dataframe where
  "constant_equal =
     [\<lparr>Province = ''Province_A'', Gender = ''Male'', Claimed = 1\<rparr>,
      \<lparr>Province = ''Province_A'', Gender = ''Male'', Claimed = 1\<rparr>,
      \<lparr>Province = ''Province_B'', Gender = ''Female'', Claimed = 1\<rparr>,
      \<lparr>Province = ''Province_B'', Gender = ''Female'', Claimed = 1\<rparr>]"

definition constant_different :: dataframe where
  "constant_different =
     [\<lparr>Province = ''Province_A'', Gender = ''Male'', Claimed = 1\<rparr>,
      \<lparr>Province = ''Province_A'', Gender = ''Male'', Claimed = 1\<rparr>,
      \<lparr>Province = ''Province_B'', Gender = ''Female'', Claimed = 0\<rparr>,
      \<lparr>Province = ''Province_B'', Gender = ''Female'', Claimed = 0\<rparr>]"

section \<open>The two tests on an object store\<close>

text \<open>
  Python passes the dataset by reference, so whether a test changes its argument is a
  question about the objects behind the references. Here the two tests are written once
  more with the store explicit: a store is the list of the objects allocated so far, an
  address is a position in it, and every pandas or scipy operation the tests apply
  reads its arguments from the store and allocates its result. The operations compute
  the same values as in the sections above.
\<close>

datatype obj =
    Frame dataframe
  | StrSeries "string list"
  | IntSeries "int list"
  | BoolSeries "bool list"
  | Table contingency
  | FloatArray "pyfloat list list"

type_synonym addr = nat

type_synonym store = "obj list"

type_synonym 'a py = "store \<Rightarrow> (py_error + 'a) \<times> store"

definition lookup :: "store \<Rightarrow> addr \<Rightarrow> obj option" where
  "lookup h a = (if a < length h then Some (h ! a) else None)"

definition new :: "obj \<Rightarrow> addr py" where
  "new v h = (Inr (length h), h @ [v])"

definition return :: "'a \<Rightarrow> 'a py" where
  "return x h = (Inr x, h)"

definition raise :: "py_error \<Rightarrow> 'a py" where
  "raise e h = (Inl e, h)"

definition bind :: "'a py \<Rightarrow> ('a \<Rightarrow> 'b py) \<Rightarrow> 'b py" where
  "bind m f h = (case m h of (Inl e, h1) \<Rightarrow> (Inl e, h1) | (Inr x, h1) \<Rightarrow> f x h1)"

text \<open>\<^verbatim>\<open>frame[name]\<close>: a new Series with the column's values; KeyError for another name.\<close>

definition getitem :: "addr \<Rightarrow> string \<Rightarrow> addr py" where
  "getitem frame name h =
     (case lookup h frame of
        Some (Frame df) \<Rightarrow>
          if name = ''Province'' then new (StrSeries (map Province df)) h
          else if name = ''Gender'' then new (StrSeries (map Gender df)) h
          else if name = ''Claimed'' then new (IntSeries (map Claimed df)) h
          else raise KeyError h
      | _ \<Rightarrow> raise TypeError h)"

text \<open>\<^verbatim>\<open>series == value\<close>: a new boolean Series.\<close>

definition series_eq :: "addr \<Rightarrow> string \<Rightarrow> addr py" where
  "series_eq series v h =
     (case lookup h series of
        Some (StrSeries xs) \<Rightarrow> new (BoolSeries (map (\<lambda>x. x = v) xs)) h
      | _ \<Rightarrow> raise TypeError h)"

text \<open>
  \<^verbatim>\<open>frame[mask]\<close> with a boolean Series: a new DataFrame with the rows where the mask is
  true; ValueError when the mask has another length than the frame.
\<close>

definition getitem_mask :: "addr \<Rightarrow> addr \<Rightarrow> addr py" where
  "getitem_mask frame msk h =
     (case (lookup h frame, lookup h msk) of
        (Some (Frame df), Some (BoolSeries bs)) \<Rightarrow>
          if length bs = length df then new (Frame (map fst (filter snd (zip df bs)))) h
          else raise ValueError h
      | _ \<Rightarrow> raise TypeError h)"

definition crosstab_st :: "addr \<Rightarrow> addr \<Rightarrow> addr py" where
  "crosstab_st rows cols h =
     (case (lookup h rows, lookup h cols) of
        (Some (StrSeries rs), Some (IntSeries cs)) \<Rightarrow> new (Table (crosstab rs cs)) h
      | _ \<Rightarrow> raise TypeError h)"

definition chi2_contingency_st :: "addr \<Rightarrow> (pyfloat \<times> pvalue \<times> int \<times> addr) py" where
  "chi2_contingency_st table h =
     (case lookup h table of
        Some (Table t) \<Rightarrow>
          (case chi2_contingency (cells t) of
             Inl e \<Rightarrow> raise e h
           | Inr (chi2, p, dof, expected) \<Rightarrow>
               bind (new (FloatArray expected)) (\<lambda>ex. return (chi2, p, dof, ex)) h)
      | _ \<Rightarrow> raise TypeError h)"

definition ttest_ind_st :: "addr \<Rightarrow> addr \<Rightarrow> (t_statistic \<times> pvalue) py" where
  "ttest_ind_st a b h =
     (case (lookup h a, lookup h b) of
        (Some (IntSeries xs), Some (IntSeries ys)) \<Rightarrow>
          (case ttest_ind xs ys of Inl e \<Rightarrow> raise e h | Inr r \<Rightarrow> return r h)
      | _ \<Rightarrow> raise TypeError h)"

text \<open>Lines 82 to 87 and lines 101 to 107, expression by expression.\<close>

definition preprocessing_script_st :: "addr \<Rightarrow> (pyfloat \<times> pvalue \<times> addr) py" where
  "preprocessing_script_st data =
     bind (getitem data ''Province'') (\<lambda>province.
     bind (getitem data ''Claimed'') (\<lambda>claimed.
     bind (crosstab_st province claimed) (\<lambda>contingency_table.
     bind (chi2_contingency_st contingency_table) (\<lambda>(chi2, p, dof, expected).
     return (chi2, p, contingency_table)))))"

definition gender_analysis_st :: "addr \<Rightarrow> (t_statistic \<times> pvalue) py" where
  "gender_analysis_st data =
     bind (getitem data ''Gender'') (\<lambda>gender.
     bind (series_eq gender ''Male'') (\<lambda>is_male.
     bind (getitem_mask data is_male) (\<lambda>males.
     bind (getitem males ''Claimed'') (\<lambda>male_claims.
     bind (getitem data ''Gender'') (\<lambda>gender2.
     bind (series_eq gender2 ''Female'') (\<lambda>is_female.
     bind (getitem_mask data is_female) (\<lambda>females.
     bind (getitem females ''Claimed'') (\<lambda>female_claims.
     bind (ttest_ind_st male_claims female_claims) (\<lambda>(t_stat, p_value).
     return (t_stat, p_value))))))))))"

text \<open>An operation only allocates when every store it is run on is a prefix of the store it leaves.\<close>

definition only_allocates :: "'a py \<Rightarrow> bool" where
  "only_allocates m = (\<forall>h. prefix h (snd (m h)))"

section \<open>Properties of the data generator\<close>

subsection \<open>Columns, draws and the successful run\<close>

lemma zip_rows_length:
  "length ps = length gs \<Longrightarrow> length gs = length cs \<Longrightarrow> length (zip_rows ps gs cs) = length ps"
  by (induction ps gs cs rule: zip_rows.induct) auto

lemma zip_rows_Province:
  "length ps = length gs \<Longrightarrow> length gs = length cs \<Longrightarrow> map Province (zip_rows ps gs cs) = ps"
  by (induction ps gs cs rule: zip_rows.induct) auto

lemma zip_rows_Gender:
  "length ps = length gs \<Longrightarrow> length gs = length cs \<Longrightarrow> map Gender (zip_rows ps gs cs) = gs"
  by (induction ps gs cs rule: zip_rows.induct) auto

lemma zip_rows_Claimed:
  "length ps = length gs \<Longrightarrow> length gs = length cs \<Longrightarrow> map Claimed (zip_rows ps gs cs) = cs"
  by (induction ps gs cs rule: zip_rows.induct) auto

lemma randint_n_length: "length (fst (randint_n R pop k s)) = k"
  by (induction k arbitrary: s) (simp_all add: case_prod_beta)

lemma randint_n_range:
  "randint_in_range R \<Longrightarrow> 0 < pop \<Longrightarrow> list_all (\<lambda>i. i < pop) (fst (randint_n R pop k s))"
proof (induction k arbitrary: s)
  case 0
  then show ?case by simp
next
  case (Suc k)
  obtain i s1 where d: "randint R pop s = (i, s1)" by (cases "randint R pop s")
  from Suc.prems have "fst (randint R pop s) < pop"
    unfolding randint_in_range_def by blast
  with d have "i < pop" by simp
  moreover have "list_all (\<lambda>i. i < pop) (fst (randint_n R pop k s1))"
    using Suc by blast
  ultimately show ?case using d by (simp add: case_prod_beta)
qed

lemma choice_Inr:
  assumes "choice R a sz s = (Inr xs, s')"
  shows "0 \<le> sz \<and> length xs = nat sz \<and> set xs \<subseteq> set a"
proof -
  obtain idx s1 where d: "randint_n R (length a) (nat sz) s = (idx, s1)"
    by (cases "randint_n R (length a) (nat sz) s")
  have l: "length idx = nat sz" using randint_n_length [of R "length a" "nat sz" s] d by simp
  from assms d have nn: "0 \<le> sz" and ok: "list_all (\<lambda>i. i < length a) idx" and xs: "xs = map (nth a) idx"
    by (auto simp: choice_def split: if_splits option.splits)
  from ok have "set (map (nth a) idx) \<subseteq> set a"
    by (auto simp: list_all_iff)
  with nn l xs show ?thesis by simp
qed

lemma choice_succeeds:
  assumes "randint_in_range R" "a \<noteq> []" "0 \<le> sz" "sz < 2 ^ 63" "alloc_error R (nat sz) = None"
  shows "\<exists>xs s'. choice R a sz s = (Inr xs, s')"
proof -
  obtain idx s1 where d: "randint_n R (length a) (nat sz) s = (idx, s1)"
    by (cases "randint_n R (length a) (nat sz) s")
  have "list_all (\<lambda>i. i < length a) (fst (randint_n R (length a) (nat sz) s))"
    using assms(1,2) by (intro randint_n_range) auto
  with d have "list_all (\<lambda>i. i < length a) idx" by simp
  with assms d show ?thesis by (simp add: choice_def)
qed


lemma choice_too_large: "2 ^ 63 \<le> sz \<Longrightarrow> choice R a sz s = (Inl ValueError, s)"
  by (simp add: choice_def)


lemma claims_loop_Inr:
  "claims_loop R rates gs s = (Inr cs, s') \<Longrightarrow>
   cs = map2 (\<lambda>u g. if u < the (rates g) then 1 else 0) (fst (rand_n R (length gs) s)) gs
   \<and> s' = snd (rand_n R (length gs) s) \<and> set gs \<subseteq> dom rates"
proof (induction gs arbitrary: s cs s')
  case Nil
  then show ?case by simp
next
  case (Cons g gs)
  obtain u s1 where d: "rand R s = (u, s1)" by (cases "rand R s")
  from Cons.prems d obtain rate cs1 where
    r: "rates g = Some rate" and
    rec: "claims_loop R rates gs s1 = (Inr cs1, s')" and
    cs: "cs = (if u < rate then 1 else 0) # cs1"
    by (auto split: option.splits prod.splits sum.splits)
  from Cons.IH [OF rec] d r cs show ?case
    by (auto split: prod.splits)
qed

lemma claims_loop_succeeds:
  "set gs \<subseteq> dom rates \<Longrightarrow> \<exists>cs s'. claims_loop R rates gs s = (Inr cs, s') \<and> length cs = length gs"
proof (induction gs arbitrary: s)
  case Nil
  then show ?case by simp
next
  case (Cons g gs)
  obtain u s1 where d: "rand R s = (u, s1)" by (cases "rand R s")
  from Cons.prems obtain rate where r: "rates g = Some rate" by auto
  from Cons obtain cs s' where "claims_loop R rates gs s1 = (Inr cs, s')" "length cs = length gs"
    by fastforce
  with d r show ?case by simp
qed

lemma rand_n_length: "length (fst (rand_n R k s)) = k"
  by (induction k arbitrary: s) (simp_all add: case_prod_beta)

lemma lcg_in_range: "randint_in_range lcg_random"
  by (simp add: randint_in_range_def lcg_random_def)

lemma dom_claim_rates_gender: "dom claim_rates_gender = set genders"
  by (auto simp: claim_rates_gender_def genders_def)

lemma zip_rows_set:
  assumes "length ps = length gs" "length gs = length cs" "r \<in> set (zip_rows ps gs cs)"
  shows "Province r \<in> set ps \<and> Gender r \<in> set gs \<and> Claimed r \<in> set cs"
proof -
  from assms(3) have "Province r \<in> set (map Province (zip_rows ps gs cs))"
    and "Gender r \<in> set (map Gender (zip_rows ps gs cs))"
    and "Claimed r \<in> set (map Claimed (zip_rows ps gs cs))"
    by (simp_all only: set_map image_eqI)
  with assms(1,2) show ?thesis
    by (simp add: zip_rows_Province zip_rows_Gender zip_rows_Claimed)
qed

text \<open>The successful run, spelled out.\<close>

lemma generate_with_tables_Inr:
  assumes "generate_with_tables R rp rg N g = (Inr df, g')"
  shows "\<exists>ps s1 gs s2 cs.
     choice R provinces N (seed R 42) = (Inr ps, s1) \<and>
     choice R genders N s1 = (Inr gs, s2) \<and>
     claims_loop R rg gs s2 = (Inr cs, g') \<and>
     length ps = nat N \<and> length gs = nat N \<and> length cs = nat N \<and> 0 \<le> N \<and>
     set ps \<subseteq> set provinces \<and> set gs \<subseteq> set genders \<and>
     df = zip_rows ps gs cs"
proof -
  from assms obtain ps s1 where c1: "choice R provinces N (seed R 42) = (Inr ps, s1)"
    by (auto simp: generate_with_tables_def split: prod.splits sum.splits)
  from assms c1 obtain gs s2 where c2: "choice R genders N s1 = (Inr gs, s2)"
    by (auto simp: generate_with_tables_def split: prod.splits sum.splits)
  from assms c1 c2 obtain cs s3 where c3: "claims_loop R rg gs s2 = (Inr cs, s3)"
    and d: "DataFrame ps gs cs = Inr df" and g': "g' = s3"
    by (auto simp: generate_with_tables_def split: prod.splits sum.splits)
  from d have df: "df = zip_rows ps gs cs"
    by (auto simp: DataFrame_def split: if_splits)
  from d have lens: "length ps = length gs" "length gs = length cs"
    by (auto simp: DataFrame_def split: if_splits)
  from choice_Inr [OF c1] choice_Inr [OF c2] lens c1 c2 c3 g' df show ?thesis
    by auto
qed

lemma generate_with_tables_succeeds:
  assumes "randint_in_range R" "0 \<le> N" "set genders \<subseteq> dom rg"
    and "N < 2 ^ 63" "alloc_error R (nat N) = None"
  shows "\<exists>df g'. generate_with_tables R rp rg N g = (Inr df, g') \<and> int (length df) = N"
proof -
  have pne: "provinces \<noteq> []" and gne: "genders \<noteq> []"
    by (simp_all add: provinces_def genders_def)
  from choice_succeeds [OF assms(1) pne assms(2) assms(4) assms(5)]
  obtain ps s1 where c1: "choice R provinces N (seed R 42) = (Inr ps, s1)" by blast
  from choice_succeeds [OF assms(1) gne assms(2) assms(4) assms(5)]
  obtain gs s2 where c2: "choice R genders N s1 = (Inr gs, s2)" by blast
  from choice_Inr [OF c1] have lp: "length ps = nat N" by simp
  from choice_Inr [OF c2] have lg: "length gs = nat N" and sg: "set gs \<subseteq> set genders" by simp_all
  from sg assms(3) have "set gs \<subseteq> dom rg" by blast
  from claims_loop_succeeds [where R = R and s = s2, OF this]
  obtain cs s3 where c3: "claims_loop R rg gs s2 = (Inr cs, s3)" and lc: "length cs = length gs"
    by blast
  have "generate_with_tables R rp rg N g = (Inr (zip_rows ps gs cs), s3)"
    using c1 c2 c3 lp lg lc by (simp add: generate_with_tables_def DataFrame_def)
  moreover have "int (length (zip_rows ps gs cs)) = N"
    using lp lg lc assms(2) by (simp add: zip_rows_length)
  ultimately show ?thesis by blast
qed



lemma lcg_alloc: "n \<le> 1000000 \<Longrightarrow> alloc_error lcg_random n = None"
  by (simp add: lcg_random_def)

lemma lcg_run_3:
  "generate_insurance_data lcg_random 3 0 =
     (Inr [\<lparr>Province = ''Province_A'', Gender = ''Male'', Claimed = 1\<rparr>,
           \<lparr>Province = ''Province_C'', Gender = ''Female'', Claimed = 0\<rparr>,
           \<lparr>Province = ''Province_C'', Gender = ''Male'', Claimed = 1\<rparr>], 56141)"
  by code_simp

lemma lcg_draws_3: "claim_draws lcg_random 3 = [9333 / 65537, 44679 / 65537, 8612 / 65537]"
  by code_simp

subsection \<open>What decides Claimed\<close>

text \<open>
  Claim C1. In every dataset that \<^verbatim>\<open>generate_insurance_data\<close> returns, the \<^verbatim>\<open>Claimed\<close>
  field of record \<open>i\<close> is 1 exactly when the \<open>i\<close>-th float drawn on line 41 is below the
  rate of the record's \<^verbatim>\<open>Gender\<close> in the gender table (the float \<^verbatim>\<open>0.6\<close> for Male, the
  float \<^verbatim>\<open>0.2\<close> for Female), and the record's gender is one of the two. The province table has no influence: the
  function returns the same result and leaves the same generator state whatever table
  is put in its place.
\<close>

theorem claimed_decided_by_gender:
  assumes "generate_insurance_data R N g = (Inr df, g')"
  shows "(\<forall>i<length df.
            (Gender (df ! i) = ''Male'' \<and>
               Claimed (df ! i) = (if claim_draws R N ! i < float_0_6 then 1 else 0)) \<or>
            (Gender (df ! i) = ''Female'' \<and>
               Claimed (df ! i) = (if claim_draws R N ! i < float_0_2 then 1 else 0))) \<and>
         (\<forall>rates. generate_with_tables R rates claim_rates_gender N g =
            generate_insurance_data R N g)"
proof (intro conjI allI impI)
  fix i
  assume i: "i < length df"
  from assms have "generate_with_tables R claim_rates_province claim_rates_gender N g = (Inr df, g')"
    by (simp add: generate_insurance_data_def)
  from generate_with_tables_Inr [OF this]
  obtain ps s1 gs s2 cs where
    c1: "choice R provinces N (seed R 42) = (Inr ps, s1)" and
    c2: "choice R genders N s1 = (Inr gs, s2)" and
    c3: "claims_loop R claim_rates_gender gs s2 = (Inr cs, g')" and
    lp: "length ps = nat N" and lg: "length gs = nat N" and lc: "length cs = nat N" and
    sg: "set gs \<subseteq> set genders" and df: "df = zip_rows ps gs cs"
    by blast
  from lp lg lc have lens: "length ps = length gs" "length gs = length cs" by simp_all
  have ldf: "length df = nat N" using df lens lp by (simp add: zip_rows_length)
  have draws: "claim_draws R N = fst (rand_n R (length gs) s2)"
    using c1 c2 lg by (simp add: claim_draws_def)
  have ld: "length (claim_draws R N) = nat N"
    by (simp add: claim_draws_def rand_n_length)
  from claims_loop_Inr [OF c3]
  have cs: "cs = map2 (\<lambda>u g. if u < the (claim_rates_gender g) then 1 else 0) (claim_draws R N) gs"
    using draws by simp
  have G: "Gender (df ! i) = gs ! i"
    using nth_map [of i df Gender] i df lens by (simp add: zip_rows_Gender)
  have "Claimed (df ! i) = cs ! i"
    using nth_map [of i df Claimed] i df lens by (simp add: zip_rows_Claimed)
  also have "\<dots> = (if claim_draws R N ! i < the (claim_rates_gender (gs ! i)) then 1 else 0)"
    using i ldf lg ld by (simp add: cs)
  finally have C: "Claimed (df ! i) =
      (if claim_draws R N ! i < the (claim_rates_gender (gs ! i)) then 1 else 0)" .
  from i ldf lg sg have "gs ! i \<in> set genders" by (metis nth_mem subsetD)
  then have "gs ! i = ''Male'' \<or> gs ! i = ''Female''" by (simp add: genders_def)
  then show "(Gender (df ! i) = ''Male'' \<and>
               Claimed (df ! i) = (if claim_draws R N ! i < float_0_6 then 1 else 0)) \<or>
            (Gender (df ! i) = ''Female'' \<and>
               Claimed (df ! i) = (if claim_draws R N ! i < float_0_2 then 1 else 0))"
    using G C by (auto simp: claim_rates_gender_def)
next
  fix rates
  show "generate_with_tables R rates claim_rates_gender N g = generate_insurance_data R N g"
    by (simp add: generate_insurance_data_def generate_with_tables_def)
qed

theorem claimed_decided_by_gender_witness:
  "generate_insurance_data lcg_random 3 0 =
     (Inr [\<lparr>Province = ''Province_A'', Gender = ''Male'', Claimed = 1\<rparr>,
           \<lparr>Province = ''Province_C'', Gender = ''Female'', Claimed = 0\<rparr>,
           \<lparr>Province = ''Province_C'', Gender = ''Male'', Claimed = 1\<rparr>], 56141) \<and>
   claim_draws lcg_random 3 = [9333 / 65537, 44679 / 65537, 8612 / 65537] \<and>
   (1 :: int) = (if claim_draws lcg_random 3 ! 0 < float_0_6 then 1 else 0) \<and>
   (0 :: int) = (if claim_draws lcg_random 3 ! 1 < float_0_2 then 1 else 0) \<and>
   (1 :: int) = (if claim_draws lcg_random 3 ! 2 < float_0_6 then 1 else 0) \<and>
   (\<forall>rates. generate_with_tables lcg_random rates claim_rates_gender 3 0 =
      generate_insurance_data lcg_random 3 0)"
proof -
  let ?D = "[\<lparr>Province = ''Province_A'', Gender = ''Male'', Claimed = 1\<rparr>,
             \<lparr>Province = ''Province_C'', Gender = ''Female'', Claimed = 0\<rparr>,
             \<lparr>Province = ''Province_C'', Gender = ''Male'', Claimed = 1\<rparr>]"
  note t = claimed_decided_by_gender [OF lcg_run_3]
  from t have r: "\<forall>rates. generate_with_tables lcg_random rates claim_rates_gender 3 0 =
      generate_insurance_data lcg_random 3 0"
    by (rule conjunct2)
  from t have a: "\<forall>i<length ?D.
      (Gender (?D ! i) = ''Male'' \<and>
         Claimed (?D ! i) = (if claim_draws lcg_random 3 ! i < float_0_6 then 1 else 0)) \<or>
      (Gender (?D ! i) = ''Female'' \<and>
         Claimed (?D ! i) = (if claim_draws lcg_random 3 ! i < float_0_2 then 1 else 0))"
    by (rule conjunct1)
  from a [rule_format, of 0]
  have "(1 :: int) = (if claim_draws lcg_random 3 ! 0 < float_0_6 then 1 else 0)"
    by simp
  moreover from a [rule_format, of 1]
  have "(0 :: int) = (if claim_draws lcg_random 3 ! 1 < float_0_2 then 1 else 0)"
    by simp
  moreover from a [rule_format, of 2]
  have "(1 :: int) = (if claim_draws lcg_random 3 ! 2 < float_0_6 then 1 else 0)"
    by simp
  ultimately show ?thesis
    using r lcg_run_3 lcg_draws_3 by (simp only: simp_thms)
qed

subsection \<open>Size and categories of the dataset\<close>

text \<open>
  Claim C2, as amended. With a generator whose index draws are in range, for every
  record count \<open>N \<ge> 1\<close> below numpy's dimension limit \<open>2^63\<close> for which the arrays of
  \<open>N\<close> elements can be allocated, the call returns a dataset of exactly \<open>N\<close> records;
  every record has its \<^verbatim>\<open>Province\<close> among the three provinces and its \<^verbatim>\<open>Gender\<close> among
  the two genders.
\<close>

theorem generate_size_and_categories:
  assumes "randint_in_range R" and "1 \<le> N" and "N < 2 ^ 63"
    and "alloc_error R (nat N) = None"
  shows "\<exists>df g'. generate_insurance_data R N g = (Inr df, g') \<and> int (length df) = N \<and>
           (\<forall>r \<in> set df. Province r \<in> set provinces \<and> Gender r \<in> set genders) \<and>
           card (set provinces) = 3 \<and> card (set genders) = 2"
proof -
  from assms(2) have nn: "0 \<le> N" by simp
  have "set genders \<subseteq> dom claim_rates_gender" by (simp add: dom_claim_rates_gender)
  from generate_with_tables_succeeds [OF assms(1) nn this assms(3) assms(4)]
  obtain df g' where run: "generate_insurance_data R N g = (Inr df, g')" and len: "int (length df) = N"
    unfolding generate_insurance_data_def by blast
  from run have "generate_with_tables R claim_rates_province claim_rates_gender N g = (Inr df, g')"
    by (simp add: generate_insurance_data_def)
  from generate_with_tables_Inr [OF this]
  obtain ps gs cs where lp: "length ps = nat N" and lg: "length gs = nat N"
    and lc: "length cs = nat N"
    and sub: "set ps \<subseteq> set provinces" "set gs \<subseteq> set genders"
    and df: "df = zip_rows ps gs cs"
    by blast
  from lp lg lc have lens: "length ps = length gs" "length gs = length cs" by simp_all
  have "\<forall>r \<in> set df. Province r \<in> set provinces \<and> Gender r \<in> set genders"
    using zip_rows_set [OF lens] sub df by blast
  moreover have "card (set provinces) = 3" by (simp add: provinces_def)
  moreover have "card (set genders) = 2" by (simp add: genders_def)
  ultimately show ?thesis using run len by blast
qed

theorem generate_size_and_categories_witness:
  "randint_in_range lcg_random \<and> (1::int) \<le> 3 \<and> (3::int) < 2 ^ 63 \<and>
   alloc_error lcg_random (nat 3) = None \<and>
   (\<exists>df g'. generate_insurance_data lcg_random 3 0 = (Inr df, g') \<and> int (length df) = 3 \<and>
      (\<forall>r \<in> set df. Province r \<in> set provinces \<and> Gender r \<in> set genders) \<and>
      card (set provinces) = 3 \<and> card (set genders) = 2)"
proof -
  have h1: "(1::int) \<le> 3" and h2: "(3::int) < 2 ^ 63" by simp_all
  have h3: "alloc_error lcg_random (nat 3) = None" by (simp add: lcg_alloc)
  show ?thesis
    using generate_size_and_categories [OF lcg_in_range h1 h2 h3, of 0] lcg_in_range h3
    by simp
qed

text \<open>
  The claim as stated covers every record count from 1 on. At the record count \<open>2^63\<close>
  the first call of \<^verbatim>\<open>np.random.choice\<close> raises ValueError, before anything is drawn,
  and no dataset is returned.
\<close>

theorem generate_too_many_records_counterexample:
  "generate_insurance_data lcg_random (2 ^ 63) 0 = (Inl ValueError, 42)"
  by (simp add: generate_insurance_data_def generate_with_tables_def choice_too_large
      lcg_random_def)

subsection \<open>Determinism\<close>

text \<open>
  Claim C3. The result of \<^verbatim>\<open>generate_insurance_data\<close> (the dataset, rows in order, and the
  generator state left behind) does not depend on the state of the process-wide
  generator at the call, because every call starts by seeding it with 42. So two calls
  with the same record count return identical datasets, also when the second call
  starts from the state the first one left.
\<close>

theorem generate_deterministic:
  "generate_insurance_data R N g1 = generate_insurance_data R N g2 \<and>
   fst (generate_insurance_data R N (snd (generate_insurance_data R N g1))) =
     fst (generate_insurance_data R N g1)"
  by (simp add: generate_insurance_data_def generate_with_tables_def)

subsection \<open>Error conditions\<close>




section \<open>Properties of the chi-squared test on provinces\<close>

subsection \<open>Counting pairs\<close>

lemma count_pairs_row:
  "count_list ps (r, c) = count_list (map snd (filter (\<lambda>p. fst p = r) ps)) c"
  by (induction ps) auto

lemma count_pairs_col:
  "count_list ps (r, c) = count_list (map fst (filter (\<lambda>p. snd p = c) ps)) r"
  by (induction ps) auto

lemma length_filter_count: "length (filter (\<lambda>p. f p = v) ps) = count_list (map f ps) v"
  by (induction ps) auto

lemma sum_list_count_distinct:
  assumes "distinct xs" "set ys \<subseteq> set xs"
  shows "sum_list (map (count_list ys) xs) = length ys"
proof -
  have "sum_list (map (count_list ys) xs) = sum (count_list ys) (set xs)"
    using assms(1) by (rule sum_list_distinct_conv_sum_set)
  also have "\<dots> = length ys"
    using assms(2) by (intro sum_count_set) auto
  finally show ?thesis .
qed

lemma sum_list_int: "sum_list (map (\<lambda>x. int (f x)) xs) = int (sum_list (map f xs))"
  by (induction xs) auto

lemma row_sum_counts:
  assumes "distinct cols" "snd ` set ps \<subseteq> set cols"
  shows "sum_list (map (\<lambda>c. int (count_list ps (r, c))) cols) = int (count_list (map fst ps) r)"
proof -
  let ?ys = "map snd (filter (\<lambda>p. fst p = r) ps)"
  have sub: "set ?ys \<subseteq> set cols" using assms(2) by auto
  have "sum_list (map (\<lambda>c. int (count_list ps (r, c))) cols)
        = sum_list (map (\<lambda>c. int (count_list ?ys c)) cols)"
    by (simp add: count_pairs_row)
  also have "\<dots> = int (sum_list (map (count_list ?ys) cols))"
    by (rule sum_list_int)
  also have "\<dots> = int (length ?ys)"
    using sum_list_count_distinct [OF assms(1) sub] by simp
  also have "\<dots> = int (count_list (map fst ps) r)"
    by (simp add: length_filter_count)
  finally show ?thesis .
qed

lemma col_sum_counts:
  assumes "distinct idx" "fst ` set ps \<subseteq> set idx"
  shows "sum_list (map (\<lambda>r. int (count_list ps (r, c))) idx) = int (count_list (map snd ps) c)"
proof -
  let ?ys = "map fst (filter (\<lambda>p. snd p = c) ps)"
  have sub: "set ?ys \<subseteq> set idx" using assms(2) by auto
  have "sum_list (map (\<lambda>r. int (count_list ps (r, c))) idx)
        = sum_list (map (\<lambda>r. int (count_list ?ys r)) idx)"
    by (simp add: count_pairs_col)
  also have "\<dots> = int (sum_list (map (count_list ?ys) idx))"
    by (rule sum_list_int)
  also have "\<dots> = int (length ?ys)"
    using sum_list_count_distinct [OF assms(1) sub] by simp
  also have "\<dots> = int (count_list (map snd ps) c)"
    by (simp add: length_filter_count)
  finally show ?thesis .
qed

subsection \<open>Labels, margins and total of the contingency table\<close>

lemma zip_columns: "zip (map Province data) (map Claimed data) = pairs_of data"
  by (induction data) (auto simp: pairs_of_def)

lemma fst_pairs_of: "map fst (pairs_of data) = map Province data"
  by (simp add: pairs_of_def comp_def)

lemma snd_pairs_of: "map snd (pairs_of data) = map Claimed data"
  by (simp add: pairs_of_def comp_def)


lemma crosstab_columns:
  "columns (crosstab (map Province (data :: dataframe)) (map Claimed data)) = sort (remdups (map Claimed data))"
  by (simp add: crosstab_def zip_columns snd_pairs_of Let_def)

lemma crosstab_cells:
  "cells (crosstab (map Province (data :: dataframe)) (map Claimed data)) =
     map (\<lambda>r. map (\<lambda>c. int (count_list (pairs_of data) (r, c)))
            (sort (remdups (map Claimed data))))
       (sort (remdups (map Province data)))"
  by (simp add: crosstab_def zip_columns fst_pairs_of snd_pairs_of Let_def)

lemma crosstab_row_sums:
  "row_sums (cells (crosstab (map Province (data :: dataframe)) (map Claimed data))) =
     map (\<lambda>r. int (count_list (map Province data) r)) (sort (remdups (map Province data)))"
proof -
  have "sum_list (map (\<lambda>c. int (count_list (pairs_of data) (r, c)))
          (sort (remdups (map Claimed data)))) = int (count_list (map Province data) r)" for r
    using row_sum_counts [of "sort (remdups (map Claimed data))" "pairs_of data" r]
    by (simp add: fst_pairs_of) (simp add: pairs_of_def image_image)
  then show ?thesis
    by (simp add: row_sums_def crosstab_cells comp_def)
qed

lemma crosstab_total:
  "grand_total (cells (crosstab (map Province (data :: dataframe)) (map Claimed data))) = int (length data)"
proof -
  have "sum_list (map (count_list (map Province data)) (sort (remdups (map Province data))))
        = length (map Province data)"
    by (rule sum_list_count_distinct) auto
  then show ?thesis
    by (simp add: grand_total_def crosstab_row_sums sum_list_int)
qed

lemma crosstab_ncols:
  "ncols (cells (crosstab (map Province (data :: dataframe)) (map Claimed data))) =
     length (sort (remdups (map Claimed data)))"
proof -
  have "set (sort (remdups (map Province data))) = {} \<longleftrightarrow>
        set (sort (remdups (map Claimed data))) = {}"
    by simp
  then have "sort (remdups (map Province data)) = [] \<longleftrightarrow>
        sort (remdups (map Claimed data)) = []"
    by (simp only: set_empty)
  then show ?thesis
    unfolding crosstab_cells ncols_def
    by (cases "sort (remdups (map Province data))") simp_all
qed

lemma crosstab_col_sums:
  "col_sums (cells (crosstab (map Province (data :: dataframe)) (map Claimed data))) =
     map (\<lambda>c. int (count_list (map Claimed data) c)) (sort (remdups (map Claimed data)))"
proof -
  let ?cols = "sort (remdups (map Claimed data))"
  let ?idx = "sort (remdups (map Province data))"
  have col: "sum_list (map (\<lambda>r. int (count_list (pairs_of data) (r, c))) ?idx)
        = int (count_list (map Claimed data) c)" for c
    using col_sum_counts [of ?idx "pairs_of data" c]
    by (simp add: snd_pairs_of) (simp add: pairs_of_def image_image)
  have "map (\<lambda>j. sum_list (map (\<lambda>row. row ! j)
            (map (\<lambda>r. map (\<lambda>c. int (count_list (pairs_of data) (r, c))) ?cols) ?idx)))
          [0..<length ?cols]
        = map (\<lambda>j. int (count_list (map Claimed data) (?cols ! j))) [0..<length ?cols]"
    by (rule map_cong) (simp_all add: comp_def col)
  also have "\<dots> = map (\<lambda>c. int (count_list (map Claimed data) c)) ?cols"
    by (rule nth_equalityI) simp_all
  finally have sums: "map (\<lambda>j. sum_list (map (\<lambda>row. row ! j)
            (map (\<lambda>r. map (\<lambda>c. int (count_list (pairs_of data) (r, c))) ?cols) ?idx)))
          [0..<length ?cols]
        = map (\<lambda>c. int (count_list (map Claimed data) c)) ?cols" .
  have nc: "ncols (map (\<lambda>r. map (\<lambda>c. int (count_list (pairs_of data) (r, c))) ?cols) ?idx)
        = length ?cols"
    using crosstab_ncols [of data] unfolding crosstab_cells .
  show ?thesis
    unfolding col_sums_def crosstab_cells nc by (rule sums)
qed

lemma chi2_contingency_succeeds:
  assumes "\<not> list_ex (list_ex (\<lambda>x. x < 0)) obs" "nrows obs * ncols obs \<noteq> 0" "grand_total obs \<noteq> 0"
    "\<not> list_ex (list_ex (\<lambda>e. e = 0)) (expected_freq obs)"
  shows "\<exists>chi2 p dof ex. chi2_contingency obs = Inr (chi2, p, dof, ex)"
  using assms by (simp add: chi2_contingency_def Let_def)

lemma crosstab_cells_nonneg:
  "row \<in> set (cells (crosstab (map Province (data :: dataframe)) (map Claimed data))) \<Longrightarrow>
   x \<in> set row \<Longrightarrow> 0 \<le> x"
  by (auto simp: crosstab_cells)

lemma count_list_pos: "x \<in> set xs \<Longrightarrow> 0 < count_list xs x"
  using count_list_0_iff [of xs x] by auto

lemma crosstab_row_sums_pos:
  "r \<in> set (row_sums (cells (crosstab (map Province (data :: dataframe)) (map Claimed data)))) \<Longrightarrow> 0 < r"
  by (auto simp: crosstab_row_sums intro!: count_list_pos)

lemma crosstab_col_sums_pos:
  "c \<in> set (col_sums (cells (crosstab (map Province (data :: dataframe)) (map Claimed data)))) \<Longrightarrow> 0 < c"
  by (auto simp: crosstab_col_sums intro!: count_list_pos)

lemma crosstab_expected_pos:
  assumes "(data :: dataframe) \<noteq> []"
    and "row \<in> set (expected_freq (cells (crosstab (map Province data) (map Claimed data))))"
    and "e \<in> set row"
  shows "0 < e"
proof -
  let ?obs = "cells (crosstab (map Province data) (map Claimed data))"
  from assms(2,3) obtain r c where r: "r \<in> set (row_sums ?obs)" and c: "c \<in> set (col_sums ?obs)"
    and e: "e = real_of_int r * real_of_int c / real_of_int (grand_total ?obs)"
    by (auto simp: expected_freq_def)
  have "0 < grand_total ?obs" using assms(1) by (simp add: crosstab_total)
  with crosstab_row_sums_pos [OF r] crosstab_col_sums_pos [OF c] e show ?thesis by simp
qed

lemma crosstab_size_nonzero:
  assumes "(data :: dataframe) \<noteq> []"
  shows "nrows (cells (crosstab (map Province data) (map Claimed data))) *
         ncols (cells (crosstab (map Province data) (map Claimed data))) \<noteq> 0"
proof -
  from assms have "set (sort (remdups (map Province data))) \<noteq> {}"
    and "set (sort (remdups (map Claimed data))) \<noteq> {}" by simp_all
  then have "sort (remdups (map Province data)) \<noteq> []" and "sort (remdups (map Claimed data)) \<noteq> []"
    by (simp_all only: set_empty not_False_eq_True)
  then show ?thesis
    using assms unfolding crosstab_ncols unfolding nrows_def crosstab_cells by simp
qed

lemma preprocessing_script_empty: "preprocessing_script [] = Inl ValueError"
  by (simp add: preprocessing_script_def crosstab_def chi2_contingency_def nrows_def)

lemma preprocessing_script_nonempty:
  assumes "(data :: dataframe) \<noteq> []"
  shows "\<exists>chi2 p. preprocessing_script data =
           Inr (chi2, p, crosstab (map Province data) (map Claimed data))"
proof -
  let ?obs = "cells (crosstab (map Province data) (map Claimed data))"
  have 1: "\<not> list_ex (list_ex (\<lambda>x. x < 0)) ?obs"
    using crosstab_cells_nonneg [of _ data] by (fastforce simp: list_ex_iff)
  have 2: "nrows ?obs * ncols ?obs \<noteq> 0" by (rule crosstab_size_nonzero [OF assms])
  have 3: "grand_total ?obs \<noteq> 0" using assms by (simp add: crosstab_total)
  have 4: "\<not> list_ex (list_ex (\<lambda>e. e = 0)) (expected_freq ?obs)"
    using crosstab_expected_pos [OF assms] by (fastforce simp: list_ex_iff)
  from chi2_contingency_succeeds [OF 1 2 3 4] show ?thesis
    by (auto simp: preprocessing_script_def)
qed

lemma sample_crosstab:
  "crosstab (map Province sample_data) (map Claimed sample_data) = sample_table"
  by code_simp

lemma sample_data_nonempty: "sample_data \<noteq> []"
  by (simp add: sample_data_def)

lemma sample_result: "preprocessing_script sample_data = Inr (Fin 4, Chi2_sf 4 2, sample_table)"
  by code_simp

subsection \<open>The contingency table\<close>



subsection \<open>When the chi-squared test raises\<close>

text \<open>
  Claim C4, as amended. \<^verbatim>\<open>preprocessing_script\<close> raises ValueError exactly for the empty
  dataset, whose contingency table has size 0. For every non-empty dataset it returns
  the statistic, the p-value and the table: the table has a row only for a province
  that occurs and a column only for a \<^verbatim>\<open>Claimed\<close> value that occurs, so every row sum and
  every column sum is positive and every expected frequency is positive. A province
  whose \<^verbatim>\<open>Claimed\<close> values are all 0 raises nothing.
\<close>

theorem preprocessing_script_errors:
  "(data = [] \<longrightarrow> preprocessing_script data = Inl ValueError) \<and>
   (data \<noteq> [] \<longrightarrow>
      (\<exists>chi2 p. preprocessing_script data =
         Inr (chi2, p, crosstab (map Province data) (map Claimed data))) \<and>
      (\<forall>row \<in> set (expected_freq (cells (crosstab (map Province data) (map Claimed data)))).
         \<forall>e \<in> set row. 0 < e))"
  using preprocessing_script_empty preprocessing_script_nonempty [of data]
    crosstab_expected_pos [of data] by blast

theorem preprocessing_script_errors_witness:
  "preprocessing_script [] = Inl ValueError \<and> sample_data \<noteq> [] \<and>
   (\<exists>chi2 p. preprocessing_script sample_data = Inr (chi2, p, sample_table)) \<and>
   list_all (list_all (\<lambda>e. 0 < e)) (expected_freq (cells sample_table))"
  using preprocessing_script_errors [of "[]"] preprocessing_script_errors [of sample_data]
    sample_data_nonempty
  by (simp add: sample_crosstab list_all_iff)

text \<open>
  The claim as stated says that a dataset in which one province has \<^verbatim>\<open>Claimed\<close> all 0
  makes the test raise ValueError. In the sample dataset \<^verbatim>\<open>Province_A\<close> is such a
  province, and the test returns the statistic 4 with 2 degrees of freedom.
\<close>

theorem province_all_zero_counterexample:
  "preprocessing_script sample_data = Inr (Fin 4, Chi2_sf 4 2, sample_table)"
  by code_simp

section \<open>Properties of the t-test on genders\<close>

subsection \<open>The cases of the test\<close>

lemma numeric_int64: "list_all fits_int64 xs \<Longrightarrow> numeric_dtype xs"
  by (simp add: numeric_dtype_def)

lemma claims_numeric:
  assumes "\<forall>r \<in> set data. fits_int64 (Claimed r)"
  shows "numeric_dtype (male_claims data @ female_claims data)"
proof -
  from assms have "list_all fits_int64 (male_claims data @ female_claims data)"
    by (auto simp: list_all_iff male_claims_def female_claims_def)
  then show ?thesis by (rule numeric_int64)
qed

lemma ttest_ind_returns:
  "numeric_dtype (a @ b) \<Longrightarrow> \<exists>t p. ttest_ind a b = Inr (t, p)"
  by (simp add: ttest_ind_def)

lemma ttest_ind_empty:
  "numeric_dtype (a @ b) \<Longrightarrow> a = [] \<or> b = [] \<Longrightarrow> ttest_ind a b = Inr (T_NaN, PValue NaN)"
  by (simp add: ttest_ind_def)

lemma ttest_ind_welch:
  assumes "numeric_dtype (a @ b)" "2 \<le> length a" "2 \<le> length b"
    and "\<not> exact_constant a \<or> \<not> exact_constant b"
  shows "ttest_ind a b = Inr (Welch_t a b, Welch_p a b)"
proof -
  from assms(2,3) have "a \<noteq> []" "b \<noteq> []" "length a \<noteq> 1" "length b \<noteq> 1" by auto
  with assms(1,4) show ?thesis by (auto simp: ttest_ind_def)
qed

lemma exact_constant_small:
  assumes "\<forall>x \<in> set xs. x = c" "xs \<noteq> []" "\<bar>c\<bar> \<le> 1" "int (length xs) \<le> 2 ^ 53"
  shows "exact_constant xs \<and> hd xs = c"
proof -
  from assms(1,2) have h: "hd xs = c" by (cases xs) auto
  have "\<bar>c\<bar> * int (length xs) \<le> 1 * int (length xs)"
    using assms(3) by (intro mult_right_mono) auto
  with assms(4) have "\<bar>c\<bar> * int (length xs) \<le> 2 ^ 53" by simp
  with assms(1) h show ?thesis by (simp add: exact_constant_def list_all_iff)
qed

lemma ttest_ind_constant:
  assumes "numeric_dtype (a @ b)" "a \<noteq> []" "b \<noteq> []" "exact_constant a" "exact_constant b"
  shows "ttest_ind a b =
    (if length a = 1 \<or> length b = 1 \<or> hd a = hd b then Inr (T_NaN, PValue NaN)
     else if hd b < hd a then Inr (T_PInf, PValue (Fin 0)) else Inr (T_NInf, PValue (Fin 0)))"
  using assms by (simp add: ttest_ind_def)

lemma male_claims_known_genders:
  "male_claims (filter (\<lambda>r. Gender r = ''Male'' \<or> Gender r = ''Female'') data) = male_claims data"
  by (induction data) (auto simp: male_claims_def)

lemma female_claims_known_genders:
  "female_claims (filter (\<lambda>r. Gender r = ''Male'' \<or> Gender r = ''Female'') data) = female_claims data"
  by (induction data) (auto simp: female_claims_def)

lemma gender_counts:
  "length (male_claims data) + length (female_claims data) +
     length (filter (\<lambda>r. Gender r \<noteq> ''Male'' \<and> Gender r \<noteq> ''Female'') data) = length data"
  by (induction data) (auto simp: male_claims_def female_claims_def)

lemma male_claims_length: "length (male_claims data) \<le> length data"
  by (simp add: male_claims_def)

lemma female_claims_length: "length (female_claims data) \<le> length data"
  by (simp add: female_claims_def)

lemma male_claims_set: "x \<in> set (male_claims data) \<Longrightarrow> \<exists>r \<in> set data. Claimed r = x"
  by (auto simp: male_claims_def)

lemma female_claims_set: "x \<in> set (female_claims data) \<Longrightarrow> \<exists>r \<in> set data. Claimed r = x"
  by (auto simp: female_claims_def)

text \<open>The samples of a dataset of zeros and ones, when all values of a sample are equal.\<close>

lemma binary_constant_samples:
  assumes bin: "\<forall>r \<in> set data. Claimed r = 0 \<or> Claimed r = 1"
    and len: "int (length data) \<le> 2 ^ 53"
    and ne: "male_claims data \<noteq> []" "female_claims data \<noteq> []"
    and c: "\<forall>x \<in> set (male_claims data). x = c1" "\<forall>y \<in> set (female_claims data). y = c2"
  shows "exact_constant (male_claims data) \<and> hd (male_claims data) = c1 \<and>
         exact_constant (female_claims data) \<and> hd (female_claims data) = c2"
proof -
  from ne(1) obtain x where x: "x \<in> set (male_claims data)" by (cases "male_claims data") auto
  with c(1) have "x = c1" by blast
  with male_claims_set [OF x] bin have b1: "\<bar>c1\<bar> \<le> 1" by auto
  from ne(2) obtain y where y: "y \<in> set (female_claims data)" by (cases "female_claims data") auto
  with c(2) have "y = c2" by blast
  with female_claims_set [OF y] bin have b2: "\<bar>c2\<bar> \<le> 1" by auto
  have l1: "int (length (male_claims data)) \<le> 2 ^ 53"
    using male_claims_length [of data] len by linarith
  have l2: "int (length (female_claims data)) \<le> 2 ^ 53"
    using female_claims_length [of data] len by linarith
  from exact_constant_small [OF c(1) ne(1) b1 l1] exact_constant_small [OF c(2) ne(2) b2 l2]
  show ?thesis by simp
qed

lemma binary_fits: "Claimed r = 0 \<or> Claimed r = 1 \<Longrightarrow> fits_int64 (Claimed r)"
  by (auto simp: fits_int64_def)

subsection \<open>The tests on the sample datasets\<close>

lemma sample_male: "male_claims sample_data = [0, 1, 1]"
  by (simp add: male_claims_def sample_data_def)

lemma sample_female: "female_claims sample_data = [0, 0]"
  by (simp add: female_claims_def sample_data_def)

lemma sample_fits: "\<forall>r \<in> set sample_data. fits_int64 (Claimed r)"
  by (simp add: sample_data_def fits_int64_def)

lemma sample_gender_analysis:
  "gender_analysis sample_data = Inr (Welch_t [0, 1, 1] [0, 0], Welch_p [0, 1, 1] [0, 0])"
  by (simp add: gender_analysis_def sample_male sample_female ttest_ind_def numeric_dtype_def
      fits_int64_def exact_constant_def)

lemma males_only_fits: "\<forall>r \<in> set males_only. fits_int64 (Claimed r)"
  by (simp add: males_only_def fits_int64_def)

lemma constant_equal_binary: "\<forall>r \<in> set constant_equal. Claimed r = 0 \<or> Claimed r = 1"
  by (simp add: constant_equal_def)

lemma constant_different_binary: "\<forall>r \<in> set constant_different. Claimed r = 0 \<or> Claimed r = 1"
  by (simp add: constant_different_def)

subsection \<open>Empty and constant samples\<close>

text \<open>
  Claim C5, as amended. On every dataset whose \<^verbatim>\<open>Claimed\<close> values are 64-bit integers
  \<^verbatim>\<open>gender_analysis\<close> raises no error: it returns a statistic and a p-value. When the
  Male or the Female sample is empty both are NaN. When every \<^verbatim>\<open>Claimed\<close> value is 0 or
  1, the dataset has at most \<open>2^53\<close> records, and both samples are non-empty and have
  zero variance (all values of a sample are equal), the statistic and the p-value are
  NaN if a sample has a single value or the two samples have the same value, and
  otherwise the statistic is plus or minus infinity, with the sign of the difference
  of the Male and the Female value, and the p-value is 0.
\<close>

theorem gender_analysis_no_error:
  assumes "\<forall>r \<in> set data. fits_int64 (Claimed r)"
  shows "(\<exists>t p. gender_analysis data = Inr (t, p)) \<and>
   (male_claims data = [] \<or> female_claims data = [] \<longrightarrow>
      gender_analysis data = Inr (T_NaN, PValue NaN)) \<and>
   (\<forall>c1 c2. (\<forall>r \<in> set data. Claimed r = 0 \<or> Claimed r = 1) \<and> int (length data) \<le> 2 ^ 53 \<and>
      male_claims data \<noteq> [] \<and> female_claims data \<noteq> [] \<and>
      (\<forall>x \<in> set (male_claims data). x = c1) \<and> (\<forall>y \<in> set (female_claims data). y = c2) \<longrightarrow>
      gender_analysis data =
        (if length (male_claims data) = 1 \<or> length (female_claims data) = 1 \<or> c1 = c2
         then Inr (T_NaN, PValue NaN)
         else if c2 < c1 then Inr (T_PInf, PValue (Fin 0)) else Inr (T_NInf, PValue (Fin 0))))"
proof (intro conjI allI impI)
  show "\<exists>t p. gender_analysis data = Inr (t, p)"
    unfolding gender_analysis_def by (rule ttest_ind_returns [OF claims_numeric [OF assms]])
next
  assume "male_claims data = [] \<or> female_claims data = []"
  then show "gender_analysis data = Inr (T_NaN, PValue NaN)"
    unfolding gender_analysis_def by (rule ttest_ind_empty [OF claims_numeric [OF assms]])
next
  fix c1 c2
  assume a: "(\<forall>r \<in> set data. Claimed r = 0 \<or> Claimed r = 1) \<and> int (length data) \<le> 2 ^ 53 \<and>
      male_claims data \<noteq> [] \<and> female_claims data \<noteq> [] \<and>
      (\<forall>x \<in> set (male_claims data). x = c1) \<and> (\<forall>y \<in> set (female_claims data). y = c2)"
  then have ne: "male_claims data \<noteq> []" "female_claims data \<noteq> []" by simp_all
  from a have e: "exact_constant (male_claims data) \<and> hd (male_claims data) = c1 \<and>
         exact_constant (female_claims data) \<and> hd (female_claims data) = c2"
    by (intro binary_constant_samples) simp_all
  from ttest_ind_constant [OF claims_numeric [OF assms] ne] e
  show "gender_analysis data =
        (if length (male_claims data) = 1 \<or> length (female_claims data) = 1 \<or> c1 = c2
         then Inr (T_NaN, PValue NaN)
         else if c2 < c1 then Inr (T_PInf, PValue (Fin 0)) else Inr (T_NInf, PValue (Fin 0)))"
    unfolding gender_analysis_def by simp
qed

theorem gender_analysis_no_error_witness:
  "list_all (\<lambda>r. fits_int64 (Claimed r)) males_only \<and>
   female_claims males_only = [] \<and>
   gender_analysis males_only = Inr (T_NaN, PValue NaN) \<and>
   list_all (\<lambda>r. Claimed r = 0 \<or> Claimed r = 1) constant_equal \<and>
   male_claims constant_equal = [1, 1] \<and> female_claims constant_equal = [1, 1] \<and>
   gender_analysis constant_equal = Inr (T_NaN, PValue NaN) \<and>
   list_all (\<lambda>r. Claimed r = 0 \<or> Claimed r = 1) constant_different \<and>
   male_claims constant_different = [1, 1] \<and> female_claims constant_different = [0, 0] \<and>
   gender_analysis constant_different = Inr (T_PInf, PValue (Fin 0)) \<and>
   (\<exists>t p. gender_analysis sample_data = Inr (t, p))"
proof -
  have f1: "female_claims males_only = []"
    by (simp add: female_claims_def males_only_def)
  from gender_analysis_no_error [OF males_only_fits] f1
  have 1: "gender_analysis males_only = Inr (T_NaN, PValue NaN)" by simp
  have m2: "male_claims constant_equal = [1, 1]" and f2: "female_claims constant_equal = [1, 1]"
    by (simp_all add: male_claims_def female_claims_def constant_equal_def)
  have fit2: "\<forall>r \<in> set constant_equal. fits_int64 (Claimed r)"
    using constant_equal_binary binary_fits by blast
  have l2: "int (length constant_equal) \<le> 2 ^ 53" by (simp add: constant_equal_def)
  from gender_analysis_no_error [OF fit2]
  have "(\<forall>r \<in> set constant_equal. Claimed r = 0 \<or> Claimed r = 1) \<and>
      int (length constant_equal) \<le> 2 ^ 53 \<and>
      male_claims constant_equal \<noteq> [] \<and> female_claims constant_equal \<noteq> [] \<and>
      (\<forall>x \<in> set (male_claims constant_equal). x = 1) \<and>
      (\<forall>y \<in> set (female_claims constant_equal). y = 1) \<longrightarrow>
      gender_analysis constant_equal =
        (if length (male_claims constant_equal) = 1 \<or> length (female_claims constant_equal) = 1 \<or>
            (1 :: int) = 1
         then Inr (T_NaN, PValue NaN)
         else if (1 :: int) < 1 then Inr (T_PInf, PValue (Fin 0)) else Inr (T_NInf, PValue (Fin 0)))"
    by blast
  with constant_equal_binary l2
  have 2: "gender_analysis constant_equal = Inr (T_NaN, PValue NaN)"
    by (simp add: m2 f2)
  have m3: "male_claims constant_different = [1, 1]"
    and f3: "female_claims constant_different = [0, 0]"
    by (simp_all add: male_claims_def female_claims_def constant_different_def)
  have fit3: "\<forall>r \<in> set constant_different. fits_int64 (Claimed r)"
    using constant_different_binary binary_fits by blast
  have l3: "int (length constant_different) \<le> 2 ^ 53" by (simp add: constant_different_def)
  from gender_analysis_no_error [OF fit3]
  have "(\<forall>r \<in> set constant_different. Claimed r = 0 \<or> Claimed r = 1) \<and>
      int (length constant_different) \<le> 2 ^ 53 \<and>
      male_claims constant_different \<noteq> [] \<and> female_claims constant_different \<noteq> [] \<and>
      (\<forall>x \<in> set (male_claims constant_different). x = 1) \<and>
      (\<forall>y \<in> set (female_claims constant_different). y = 0) \<longrightarrow>
      gender_analysis constant_different =
        (if length (male_claims constant_different) = 1 \<or>
            length (female_claims constant_different) = 1 \<or> (1 :: int) = 0
         then Inr (T_NaN, PValue NaN)
         else if (0 :: int) < 1 then Inr (T_PInf, PValue (Fin 0)) else Inr (T_NInf, PValue (Fin 0)))"
    by blast
  with constant_different_binary l3
  have 3: "gender_analysis constant_different = Inr (T_PInf, PValue (Fin 0))"
    by (simp add: m3 f3)
  from gender_analysis_no_error [OF sample_fits]
  have 4: "\<exists>t p. gender_analysis sample_data = Inr (t, p)" by blast
  have b1: "list_all (\<lambda>r. fits_int64 (Claimed r)) males_only"
    using males_only_fits by (simp add: list_all_iff)
  have b2: "list_all (\<lambda>r. Claimed r = 0 \<or> Claimed r = 1) constant_equal"
    using constant_equal_binary by (simp add: list_all_iff)
  have b3: "list_all (\<lambda>r. Claimed r = 0 \<or> Claimed r = 1) constant_different"
    using constant_different_binary by (simp add: list_all_iff)
  from b1 f1 1 b2 m2 f2 2 b3 m3 f3 3 4 show ?thesis by (simp only: simp_thms)
qed

text \<open>
  The claim as stated asks for a ValueError. The dataset with no Female record, and
  the dataset whose two samples both have zero variance and the same mean, each get NaN
  as the statistic and as the p-value, and no error.
\<close>

theorem gender_analysis_empty_sample_counterexample:
  "gender_analysis males_only = Inr (T_NaN, PValue NaN) \<and>
   gender_analysis constant_equal = Inr (T_NaN, PValue NaN)"
  by (simp add: gender_analysis_def male_claims_def female_claims_def ttest_ind_def
      males_only_def constant_equal_def numeric_dtype_def fits_int64_def exact_constant_def)

subsection \<open>Records of another gender\<close>

text \<open>
  Claim C10. \<^verbatim>\<open>gender_analysis\<close> forms its two samples by equality with the strings
  \<^verbatim>\<open>'Male'\<close> and \<^verbatim>\<open>'Female'\<close> and runs the t-test on exactly these two: its result is
  the test's result on the \<^verbatim>\<open>Claimed\<close> values of the records whose gender is \<^verbatim>\<open>'Male'\<close>
  and of those whose gender is \<^verbatim>\<open>'Female'\<close>. A record with any other gender is in
  neither sample: the result is the one for the dataset without such records; the two
  sample sizes and the number of such records add up to the dataset size, so with at
  least one such record the two sample sizes sum to strictly less than the dataset
  size. No error is raised on a dataset whose \<^verbatim>\<open>Claimed\<close> values are 64-bit integers,
  whatever the genders; and when both samples have at least two values, not all equal
  in the Male sample, the result is the Welch statistic and p-value of the two samples.
\<close>

theorem gender_partition_exact:
  "gender_analysis data =
     ttest_ind (map Claimed (filter (\<lambda>r. Gender r = ''Male'') data))
       (map Claimed (filter (\<lambda>r. Gender r = ''Female'') data)) \<and>
   male_claims data = map Claimed (filter (\<lambda>r. Gender r = ''Male'') data) \<and>
   female_claims data = map Claimed (filter (\<lambda>r. Gender r = ''Female'') data) \<and>
   gender_analysis data =
     gender_analysis (filter (\<lambda>r. Gender r = ''Male'' \<or> Gender r = ''Female'') data) \<and>
   length (male_claims data) + length (female_claims data) +
     length (filter (\<lambda>r. Gender r \<noteq> ''Male'' \<and> Gender r \<noteq> ''Female'') data) = length data \<and>
   ((\<exists>r \<in> set data. Gender r \<noteq> ''Male'' \<and> Gender r \<noteq> ''Female'') \<longrightarrow>
      length (male_claims data) + length (female_claims data) < length data) \<and>
   ((\<forall>r \<in> set data. fits_int64 (Claimed r)) \<longrightarrow> (\<exists>t p. gender_analysis data = Inr (t, p))) \<and>
   ((\<forall>r \<in> set data. fits_int64 (Claimed r)) \<and>
      2 \<le> length (male_claims data) \<and> 2 \<le> length (female_claims data) \<and>
      (\<exists>x \<in> set (male_claims data). x \<noteq> hd (male_claims data)) \<longrightarrow>
      gender_analysis data =
        Inr (Welch_t (male_claims data) (female_claims data),
             Welch_p (male_claims data) (female_claims data)))"
proof (intro conjI impI)
  show "gender_analysis data =
     ttest_ind (map Claimed (filter (\<lambda>r. Gender r = ''Male'') data))
       (map Claimed (filter (\<lambda>r. Gender r = ''Female'') data))"
    by (simp add: gender_analysis_def male_claims_def female_claims_def)
next
  show "male_claims data = map Claimed (filter (\<lambda>r. Gender r = ''Male'') data)"
    by (simp add: male_claims_def)
next
  show "female_claims data = map Claimed (filter (\<lambda>r. Gender r = ''Female'') data)"
    by (simp add: female_claims_def)
next
  show "gender_analysis data =
     gender_analysis (filter (\<lambda>r. Gender r = ''Male'' \<or> Gender r = ''Female'') data)"
    by (simp add: gender_analysis_def male_claims_known_genders female_claims_known_genders)
next
  show "length (male_claims data) + length (female_claims data) +
     length (filter (\<lambda>r. Gender r \<noteq> ''Male'' \<and> Gender r \<noteq> ''Female'') data) = length data"
    by (rule gender_counts)
next
  assume "\<exists>r \<in> set data. Gender r \<noteq> ''Male'' \<and> Gender r \<noteq> ''Female''"
  then have "filter (\<lambda>r. Gender r \<noteq> ''Male'' \<and> Gender r \<noteq> ''Female'') data \<noteq> []"
    by (simp add: filter_empty_conv)
  then have "0 < length (filter (\<lambda>r. Gender r \<noteq> ''Male'' \<and> Gender r \<noteq> ''Female'') data)"
    by simp
  with gender_counts [of data]
  show "length (male_claims data) + length (female_claims data) < length data"
    by linarith
next
  assume "\<forall>r \<in> set data. fits_int64 (Claimed r)"
  then show "\<exists>t p. gender_analysis data = Inr (t, p)"
    unfolding gender_analysis_def by (intro ttest_ind_returns claims_numeric)
next
  assume a: "(\<forall>r \<in> set data. fits_int64 (Claimed r)) \<and>
      2 \<le> length (male_claims data) \<and> 2 \<le> length (female_claims data) \<and>
      (\<exists>x \<in> set (male_claims data). x \<noteq> hd (male_claims data))"
  then have "\<not> exact_constant (male_claims data)"
    by (auto simp: exact_constant_def list_all_iff)
  with a show "gender_analysis data =
        Inr (Welch_t (male_claims data) (female_claims data),
             Welch_p (male_claims data) (female_claims data))"
    unfolding gender_analysis_def by (intro ttest_ind_welch claims_numeric) simp_all
qed

theorem gender_partition_exact_witness:
  "gender_analysis sample_data = Inr (Welch_t [0, 1, 1] [0, 0], Welch_p [0, 1, 1] [0, 0]) \<and>
   gender_analysis (filter (\<lambda>r. Gender r = ''Male'' \<or> Gender r = ''Female'') sample_data) =
     Inr (Welch_t [0, 1, 1] [0, 0], Welch_p [0, 1, 1] [0, 0]) \<and>
   (\<exists>r \<in> set sample_data. Gender r \<noteq> ''Male'' \<and> Gender r \<noteq> ''Female'') \<and>
   list_all (\<lambda>r. fits_int64 (Claimed r)) sample_data \<and>
   male_claims sample_data = [0, 1, 1] \<and> female_claims sample_data = [0, 0] \<and>
   (\<exists>x \<in> set (male_claims sample_data). x \<noteq> hd (male_claims sample_data)) \<and>
   length (male_claims sample_data) + length (female_claims sample_data) < length sample_data"
proof -
  have other: "\<exists>r \<in> set sample_data. Gender r \<noteq> ''Male'' \<and> Gender r \<noteq> ''Female''"
    by (simp add: sample_data_def)
  have fits: "list_all (\<lambda>r. fits_int64 (Claimed r)) sample_data"
    using sample_fits by (simp add: list_all_iff)
  have mixed: "\<exists>x \<in> set (male_claims sample_data). x \<noteq> hd (male_claims sample_data)"
    by (simp add: sample_male)
  have pre: "(\<forall>r \<in> set sample_data. fits_int64 (Claimed r)) \<and>
      2 \<le> length (male_claims sample_data) \<and> 2 \<le> length (female_claims sample_data) \<and>
      (\<exists>x \<in> set (male_claims sample_data). x \<noteq> hd (male_claims sample_data))"
    using sample_fits mixed by (simp add: sample_male sample_female)
  note t = gender_partition_exact [of sample_data]
  note t4 = t [THEN conjunct2, THEN conjunct2, THEN conjunct2]
  note t6 = t4 [THEN conjunct2, THEN conjunct2]
  note t8 = t6 [THEN conjunct2, THEN conjunct2]
  from t8 pre have "gender_analysis sample_data =
      Inr (Welch_t (male_claims sample_data) (female_claims sample_data),
           Welch_p (male_claims sample_data) (female_claims sample_data))"
    by (rule mp)
  then have 1: "gender_analysis sample_data =
      Inr (Welch_t [0, 1, 1] [0, 0], Welch_p [0, 1, 1] [0, 0])"
    unfolding sample_male sample_female .
  from t4 [THEN conjunct1] 1
  have 2: "gender_analysis (filter (\<lambda>r. Gender r = ''Male'' \<or> Gender r = ''Female'') sample_data) =
      Inr (Welch_t [0, 1, 1] [0, 0], Welch_p [0, 1, 1] [0, 0])"
    by (rule subst)
  from t6 [THEN conjunct1] other
  have 3: "length (male_claims sample_data) + length (female_claims sample_data) < length sample_data"
    by (rule mp)
  from 1 2 other fits sample_male sample_female mixed 3 show ?thesis
    by (intro conjI)
qed

section \<open>Properties of the two tests on the object store\<close>

subsection \<open>Every operation only allocates\<close>

lemma only_allocates_return: "only_allocates (return x)"
  by (simp add: only_allocates_def return_def)

lemma only_allocates_raise: "only_allocates (raise e)"
  by (simp add: only_allocates_def raise_def)

lemma only_allocates_new: "only_allocates (new v)"
  by (simp add: only_allocates_def new_def)

lemma only_allocates_bind:
  assumes "only_allocates m" and "\<And>x. only_allocates (f x)"
  shows "only_allocates (bind m f)"
  unfolding only_allocates_def
proof
  fix h
  obtain r h1 where m: "m h = (r, h1)" by (cases "m h")
  from assms(1) m have p1: "prefix h h1"
    unfolding only_allocates_def by (metis snd_conv)
  show "prefix h (snd (bind m f h))"
  proof (cases r)
    case (Inl e)
    with m p1 show ?thesis by (simp add: bind_def)
  next
    case (Inr x)
    from assms(2) [of x] have "prefix h1 (snd (f x h1))"
      unfolding only_allocates_def by blast
    with p1 have "prefix h (snd (f x h1))" by (rule prefix_order.trans)
    with m Inr show ?thesis by (simp add: bind_def)
  qed
qed

lemma only_allocates_getitem: "only_allocates (getitem frame name)"
  unfolding only_allocates_def
  by (auto simp: getitem_def new_def raise_def split: option.splits obj.splits)

lemma only_allocates_series_eq: "only_allocates (series_eq series v)"
  unfolding only_allocates_def
  by (auto simp: series_eq_def new_def raise_def split: option.splits obj.splits)

lemma only_allocates_getitem_mask: "only_allocates (getitem_mask frame msk)"
  unfolding only_allocates_def
  by (auto simp: getitem_mask_def new_def raise_def split: option.splits obj.splits)

lemma only_allocates_crosstab_st: "only_allocates (crosstab_st rows cols)"
  unfolding only_allocates_def
  by (auto simp: crosstab_st_def new_def raise_def split: option.splits obj.splits)

lemma only_allocates_chi2_contingency_st: "only_allocates (chi2_contingency_st table)"
  unfolding only_allocates_def
  by (auto simp: chi2_contingency_st_def new_def raise_def return_def bind_def
      split: option.splits obj.splits sum.splits)

lemma only_allocates_ttest_ind_st: "only_allocates (ttest_ind_st a b)"
  unfolding only_allocates_def
  by (auto simp: ttest_ind_st_def raise_def return_def split: option.splits obj.splits sum.splits)

lemma only_allocates_preprocessing_script_st: "only_allocates (preprocessing_script_st data)"
  unfolding preprocessing_script_st_def
  by (intro only_allocates_bind only_allocates_getitem only_allocates_crosstab_st
      only_allocates_chi2_contingency_st) (simp add: only_allocates_return split: prod.splits)

lemma only_allocates_gender_analysis_st: "only_allocates (gender_analysis_st data)"
  unfolding gender_analysis_st_def
  by (intro only_allocates_bind only_allocates_getitem only_allocates_series_eq
      only_allocates_getitem_mask only_allocates_ttest_ind_st)
    (simp add: only_allocates_return split: prod.splits)

lemma prefix_lookup: "prefix h h' \<Longrightarrow> lookup h a = Some v \<Longrightarrow> lookup h' a = Some v"
  by (auto simp: lookup_def prefix_def nth_append split: if_splits)

lemma prefix_unchanged: "prefix h h' \<Longrightarrow> take (length h) h' = h"
  by (auto simp: prefix_def)

subsection \<open>The runs on a store that holds the dataset\<close>

lemma lookup_Some_less: "lookup h a = Some v \<Longrightarrow> a < length h"
  by (simp add: lookup_def split: if_splits)

lemma lookup_old: "lookup h a = Some v \<Longrightarrow> lookup (h @ xs) a = Some v"
  by (auto simp: lookup_def nth_append split: if_splits)

lemma lookup_last: "lookup (h @ [v]) (length h) = Some v"
  by (simp add: lookup_def)

lemma getitem_Province_run:
  "lookup h a = Some (Frame df) \<Longrightarrow>
   getitem a ''Province'' h = (Inr (length h), h @ [StrSeries (map Province df)])"
  by (simp add: getitem_def new_def)

lemma getitem_Gender_run:
  "lookup h a = Some (Frame df) \<Longrightarrow>
   getitem a ''Gender'' h = (Inr (length h), h @ [StrSeries (map Gender df)])"
  by (simp add: getitem_def new_def)

lemma getitem_Claimed_run:
  "lookup h a = Some (Frame df) \<Longrightarrow>
   getitem a ''Claimed'' h = (Inr (length h), h @ [IntSeries (map Claimed df)])"
  by (simp add: getitem_def new_def)

lemma series_eq_run:
  "lookup h a = Some (StrSeries xs) \<Longrightarrow>
   series_eq a v h = (Inr (length h), h @ [BoolSeries (map (\<lambda>x. x = v) xs)])"
  by (simp add: series_eq_def new_def)

lemma mask_rows:
  "map fst (filter snd (zip df (map (\<lambda>x. x = v) (map Gender df)))) = filter (\<lambda>r. Gender r = v) df"
  by (induction df) auto

lemma getitem_mask_run:
  assumes "lookup h a = Some (Frame df)"
    and "lookup h m = Some (BoolSeries (map (\<lambda>x. x = v) (map Gender df)))"
  shows "getitem_mask a m h = (Inr (length h), h @ [Frame (filter (\<lambda>r. Gender r = v) df)])"
  using assms by (simp add: getitem_mask_def new_def mask_rows del: map_map)

text \<open>The four expressions that select the claims of one gender.\<close>

lemma select_claims_run:
  assumes d: "lookup h data = Some (Frame df)"
  shows "\<exists>h'. prefix h h' \<and>
     lookup h' (length h + 3) = Some (IntSeries (map Claimed (filter (\<lambda>r. Gender r = v) df))) \<and>
     bind (getitem data ''Gender'') (\<lambda>gender.
       bind (series_eq gender v) (\<lambda>is_v.
       bind (getitem_mask data is_v) (\<lambda>rows.
       bind (getitem rows ''Claimed'') k))) h = k (length h + 3) h'"
proof -
  let ?h1 = "h @ [StrSeries (map Gender df)]"
  let ?h2 = "?h1 @ [BoolSeries (map (\<lambda>x. x = v) (map Gender df))]"
  let ?h3 = "?h2 @ [Frame (filter (\<lambda>r. Gender r = v) df)]"
  let ?h4 = "?h3 @ [IntSeries (map Claimed (filter (\<lambda>r. Gender r = v) df))]"
  have s1: "getitem data ''Gender'' h = (Inr (length h), ?h1)"
    by (rule getitem_Gender_run [OF d])
  have s2: "series_eq (length h) v ?h1 = (Inr (length ?h1), ?h2)"
    by (rule series_eq_run [OF lookup_last])
  have "lookup ?h2 data = Some (Frame df)"
    by (intro lookup_old d)
  moreover have "lookup ?h2 (length ?h1) = Some (BoolSeries (map (\<lambda>x. x = v) (map Gender df)))"
    by (rule lookup_last)
  ultimately have s3: "getitem_mask data (length ?h1) ?h2 = (Inr (length ?h2), ?h3)"
    by (rule getitem_mask_run)
  have s4: "getitem (length ?h2) ''Claimed'' ?h3 = (Inr (length ?h3), ?h4)"
    by (rule getitem_Claimed_run [OF lookup_last])
  have run: "bind (getitem data ''Gender'') (\<lambda>gender.
       bind (series_eq gender v) (\<lambda>is_v.
       bind (getitem_mask data is_v) (\<lambda>rows.
       bind (getitem rows ''Claimed'') k))) h = k (length ?h3) ?h4"
    by (simp only: bind_def s1 s2 s3 s4 prod.case sum.case)
  have l: "length ?h3 = length h + 3" by simp
  have "lookup ?h4 (length ?h3) = Some (IntSeries (map Claimed (filter (\<lambda>r. Gender r = v) df)))"
    by (rule lookup_last)
  moreover have "prefix h ?h4" by simp
  ultimately show ?thesis using run unfolding l by blast
qed

lemma ttest_ind_st_run:
  assumes "lookup h a = Some (IntSeries xs)" "lookup h b = Some (IntSeries ys)"
  shows "fst (ttest_ind_st a b h) = ttest_ind xs ys"
  using assms by (simp add: ttest_ind_st_def raise_def return_def split: sum.splits)

lemma gender_analysis_st_run:
  assumes d: "lookup h data = Some (Frame df)"
  shows "fst (gender_analysis_st data h) = gender_analysis df"
proof -
  let ?rest = "\<lambda>male_claims female_claims.
     bind (ttest_ind_st male_claims female_claims) (\<lambda>(t_stat, p_value). return (t_stat, p_value))"
  let ?second = "\<lambda>male_claims.
     bind (getitem data ''Gender'') (\<lambda>gender2.
     bind (series_eq gender2 ''Female'') (\<lambda>is_female.
     bind (getitem_mask data is_female) (\<lambda>females.
     bind (getitem females ''Claimed'') (?rest male_claims))))"
  from select_claims_run [OF d, of "''Male''" ?second]
  obtain h1 where p1: "prefix h h1"
    and m: "lookup h1 (length h + 3) = Some (IntSeries (male_claims df))"
    and r1: "gender_analysis_st data h = ?second (length h + 3) h1"
    unfolding gender_analysis_st_def male_claims_def by blast
  have d1: "lookup h1 data = Some (Frame df)"
    by (rule prefix_lookup [OF p1 d])
  from select_claims_run [OF d1, of "''Female''" "?rest (length h + 3)"]
  obtain h2 where p2: "prefix h1 h2"
    and f: "lookup h2 (length h1 + 3) = Some (IntSeries (female_claims df))"
    and r2: "?second (length h + 3) h1 = ?rest (length h + 3) (length h1 + 3) h2"
    unfolding female_claims_def by blast
  have m2: "lookup h2 (length h + 3) = Some (IntSeries (male_claims df))"
    by (rule prefix_lookup [OF p2 m])
  have "fst (?rest (length h + 3) (length h1 + 3) h2) =
        fst (ttest_ind_st (length h + 3) (length h1 + 3) h2)"
    by (simp add: bind_def return_def split: prod.splits sum.splits)
  also have "\<dots> = ttest_ind (male_claims df) (female_claims df)"
    by (rule ttest_ind_st_run [OF m2 f])
  finally show ?thesis
    by (simp only: r1 r2 gender_analysis_def)
qed

lemma preprocessing_script_st_run:
  assumes d: "lookup h data = Some (Frame df)"
  shows "case fst (preprocessing_script_st data h) of
           Inl e \<Rightarrow> preprocessing_script df = Inl e
         | Inr (chi2, p, t) \<Rightarrow>
             \<exists>tab. lookup (snd (preprocessing_script_st data h)) t = Some (Table tab) \<and>
               preprocessing_script df = Inr (chi2, p, tab)"
proof -
  let ?t = "crosstab (map Province df) (map Claimed df)"
  let ?h1 = "h @ [StrSeries (map Province df)]"
  let ?h2 = "?h1 @ [IntSeries (map Claimed df)]"
  let ?h3 = "?h2 @ [Table ?t]"
  let ?k = "\<lambda>contingency_table.
     bind (chi2_contingency_st contingency_table) (\<lambda>(chi2, p, dof, expected).
       return (chi2, p, contingency_table))"
  have s1: "getitem data ''Province'' h = (Inr (length h), ?h1)"
    by (rule getitem_Province_run [OF d])
  have s2: "getitem data ''Claimed'' ?h1 = (Inr (length ?h1), ?h2)"
    by (rule getitem_Claimed_run [OF lookup_old [OF d]])
  have "lookup ?h2 (length h) = Some (StrSeries (map Province df))"
    by (intro lookup_old lookup_last)
  moreover have "lookup ?h2 (length ?h1) = Some (IntSeries (map Claimed df))"
    by (rule lookup_last)
  ultimately have s3: "crosstab_st (length h) (length ?h1) ?h2 = (Inr (length ?h2), ?h3)"
    by (simp add: crosstab_st_def new_def)
  have run: "preprocessing_script_st data h = ?k (length ?h2) ?h3"
    unfolding preprocessing_script_st_def
    by (simp only: bind_def s1 s2 s3 prod.case sum.case)
  have t: "lookup ?h3 (length ?h2) = Some (Table ?t)"
    by (rule lookup_last)
  show ?thesis
  proof (cases "chi2_contingency (cells ?t)")
    case (Inl e)
    with t have "?k (length ?h2) ?h3 = (Inl e, ?h3)"
      by (simp add: bind_def chi2_contingency_st_def raise_def)
    with Inl show ?thesis
      unfolding run by (simp add: preprocessing_script_def)
  next
    case (Inr r)
    then obtain chi2 p dof ex where r: "chi2_contingency (cells ?t) = Inr (chi2, p, dof, ex)"
      by (cases r) auto
    with t have k: "?k (length ?h2) ?h3 = (Inr (chi2, p, length ?h2), ?h3 @ [FloatArray ex])"
      by (simp add: bind_def chi2_contingency_st_def new_def return_def)
    have "lookup (?h3 @ [FloatArray ex]) (length ?h2) = Some (Table ?t)"
      by (rule lookup_old [OF t])
    with r show ?thesis
      unfolding run k by (simp add: preprocessing_script_def)
  qed
qed

subsection \<open>The dataset after a test\<close>

text \<open>
  Claim C9. Neither test changes its input. Run on any store, \<^verbatim>\<open>preprocessing_script\<close>
  and \<^verbatim>\<open>gender_analysis\<close> leave every object that was in the store as it was and only add
  new objects. So when the argument refers to a dataset, it refers to the same dataset
  after the call, and what the call returns is derived from it: \<^verbatim>\<open>gender_analysis\<close>
  returns the statistic and the p-value of the t-test on the dataset, and
  \<^verbatim>\<open>preprocessing_script\<close> the statistic, the p-value and a reference to the newly built
  contingency table of the dataset (or raises what the test on the dataset raises).
\<close>

theorem tests_leave_dataset_unchanged:
  "take (length h) (snd (preprocessing_script_st data h)) = h \<and>
   take (length h) (snd (gender_analysis_st data h)) = h \<and>
   (lookup h data = Some (Frame df) \<longrightarrow>
      lookup (snd (preprocessing_script_st data h)) data = Some (Frame df) \<and>
      lookup (snd (gender_analysis_st data h)) data = Some (Frame df) \<and>
      fst (gender_analysis_st data h) = gender_analysis df \<and>
      (case fst (preprocessing_script_st data h) of
         Inl e \<Rightarrow> preprocessing_script df = Inl e
       | Inr (chi2, p, t) \<Rightarrow>
           \<exists>tab. lookup (snd (preprocessing_script_st data h)) t = Some (Table tab) \<and>
             preprocessing_script df = Inr (chi2, p, tab)))"
proof -
  have p1: "prefix h (snd (preprocessing_script_st data h))"
    using only_allocates_preprocessing_script_st [of data]
    unfolding only_allocates_def by blast
  have p2: "prefix h (snd (gender_analysis_st data h))"
    using only_allocates_gender_analysis_st [of data]
    unfolding only_allocates_def by blast
  show ?thesis
    using prefix_unchanged [OF p1] prefix_unchanged [OF p2]
      prefix_lookup [OF p1, of data "Frame df"] prefix_lookup [OF p2, of data "Frame df"]
      gender_analysis_st_run [of h data df] preprocessing_script_st_run [of h data df]
    by blast
qed

theorem tests_leave_dataset_unchanged_witness:
  "lookup [Frame sample_data] 0 = Some (Frame sample_data) \<and>
   take 1 (snd (preprocessing_script_st 0 [Frame sample_data])) = [Frame sample_data] \<and>
   take 1 (snd (gender_analysis_st 0 [Frame sample_data])) = [Frame sample_data] \<and>
   lookup (snd (preprocessing_script_st 0 [Frame sample_data])) 0 = Some (Frame sample_data) \<and>
   lookup (snd (gender_analysis_st 0 [Frame sample_data])) 0 = Some (Frame sample_data) \<and>
   fst (gender_analysis_st 0 [Frame sample_data]) = Inr (Welch_t [0, 1, 1] [0, 0], Welch_p [0, 1, 1] [0, 0]) \<and>
   (\<exists>t. fst (preprocessing_script_st 0 [Frame sample_data]) = Inr (Fin 4, Chi2_sf 4 2, t) \<and>
      lookup (snd (preprocessing_script_st 0 [Frame sample_data])) t = Some (Table sample_table))"
proof -
  have l: "lookup [Frame sample_data] 0 = Some (Frame sample_data)"
    by (simp add: lookup_def)
  note t = tests_leave_dataset_unchanged [of "[Frame sample_data]" 0 sample_data]
  from t l have a: "take 1 (snd (preprocessing_script_st 0 [Frame sample_data])) = [Frame sample_data]"
    and b: "take 1 (snd (gender_analysis_st 0 [Frame sample_data])) = [Frame sample_data]"
    and c: "lookup (snd (preprocessing_script_st 0 [Frame sample_data])) 0 = Some (Frame sample_data)"
    and d: "lookup (snd (gender_analysis_st 0 [Frame sample_data])) 0 = Some (Frame sample_data)"
    and e: "fst (gender_analysis_st 0 [Frame sample_data]) = gender_analysis sample_data"
    and f: "case fst (preprocessing_script_st 0 [Frame sample_data]) of
         Inl e \<Rightarrow> preprocessing_script sample_data = Inl e
       | Inr (chi2, p, t) \<Rightarrow>
           \<exists>tab. lookup (snd (preprocessing_script_st 0 [Frame sample_data])) t = Some (Table tab) \<and>
             preprocessing_script sample_data = Inr (chi2, p, tab)"
    by simp_all
  from f have g: "\<exists>t. fst (preprocessing_script_st 0 [Frame sample_data]) = Inr (Fin 4, Chi2_sf 4 2, t) \<and>
      lookup (snd (preprocessing_script_st 0 [Frame sample_data])) t = Some (Table sample_table)"
    by (auto simp: sample_result split: sum.splits)
  from l a b c d e g show ?thesis
    by (simp only: sample_gender_analysis simp_thms)
qed

end
